theory Spec2Isabelle
  imports Complex_Main "HOL-Library.Word" "HOL-Library.Char_ord" "HOL-Library.List_Lexorder"
    "HOL-Library.Product_Lexorder"
begin

unbundle bit_operations_syntax

section \<open>The JavaScript runtime as seen by the verification subsystem\<close>

text \<open>
  The repository is TypeScript over Node.js. Text is \<^typ>\<open>string\<close> (a JavaScript string is
  represented by its UTF-8 bytes), binary data (\<open>Buffer\<close>, \<open>Uint8Array\<close>) is a list of
  8-bit words, a \<open>Date\<close> is its time value in milliseconds since the epoch, with \<open>None\<close>
  for an invalid date (whose time value is \<open>NaN\<close>), and a number that may be \<open>NaN\<close> is an
  optional real. An exception is the text it renders to inside a template string.
\<close>

type_synonym bytes = "8 word list"

type_synonym exn = string

datatype jsval =
    JUndefined
  | JNull
  | JBool bool
  | JNum real
  | JStr string
  | JArr "jsval list"
  | JObj "(string \<times> jsval) list"

text \<open>
  The functions of Node's \<open>crypto\<close> and \<open>Buffer\<close> modules, of \<open>@noble/curves\<close> and of the
  language's \<open>Date\<close>, \<open>JSON\<close> and \<open>String\<close> objects that the code calls. They are parameters
  of the model: every function of the repository below takes the library it runs on.
  \<^item> \<open>sha256\<close>: \<open>createHash('sha256').update(x).digest()\<close>;
  \<open>hex_encode\<close>, \<open>base64_encode\<close>, \<open>utf8_decode\<close>: \<open>buf.toString(enc)\<close>;
  \<open>hex_decode\<close>, \<open>base64_decode\<close>, \<open>utf8_encode\<close>: \<open>Buffer.from(s, enc)\<close>, which never throws.
  \<^item> \<open>ed25519_sign msg sk\<close>, \<open>ed25519_verify sig msg pk\<close>: the two calls of \<open>ed25519\<close>, either of
  which may throw (\<open>Inl\<close>) on key material of the wrong shape; \<open>ed25519_getPublicKey\<close> relates a
  private key to its public key.
  \<^item> \<open>toISOString\<close>: \<open>new Date(ms).toISOString()\<close>; \<open>new_Date v\<close>: \<open>new Date(v).getTime()\<close>.
  \<^item> \<open>JSON_stringify\<close>, \<open>JSON_parse\<close> (which may throw a \<open>SyntaxError\<close>).
  \<^item> \<open>pbkdf2Sync password salt iterations keylen\<close> with digest \<open>sha256\<close>.
  \<^item> \<open>ctr_keystream password i\<close>: byte \<open>i\<close> of the AES-256-CTR key stream of the cipher that
  \<open>createCipher('aes-256-ctr', password)\<close> and \<open>createDecipher\<close> set up from the password alone.
  \<^item> \<open>toLowerCase\<close>: \<open>String.prototype.toLowerCase\<close>.
\<close>

record lib =
  sha256 :: "bytes \<Rightarrow> bytes"
  hex_encode :: "bytes \<Rightarrow> string"
  hex_decode :: "string \<Rightarrow> bytes"
  base64_encode :: "bytes \<Rightarrow> string"
  base64_decode :: "string \<Rightarrow> bytes"
  utf8_encode :: "string \<Rightarrow> bytes"
  utf8_decode :: "bytes \<Rightarrow> string"
  ed25519_sign :: "bytes \<Rightarrow> bytes \<Rightarrow> exn + bytes"
  ed25519_verify :: "bytes \<Rightarrow> bytes \<Rightarrow> bytes \<Rightarrow> exn + bool"
  ed25519_getPublicKey :: "bytes \<Rightarrow> bytes"
  toISOString :: "int \<Rightarrow> string"
  new_Date :: "jsval \<Rightarrow> int option"
  JSON_stringify :: "jsval \<Rightarrow> string"
  JSON_parse :: "string \<Rightarrow> exn + jsval"
  pbkdf2Sync :: "string \<Rightarrow> bytes \<Rightarrow> nat \<Rightarrow> nat \<Rightarrow> bytes"
  ctr_keystream :: "bytes \<Rightarrow> nat \<Rightarrow> 8 word"
  toLowerCase :: "string \<Rightarrow> string"

text \<open>\<open>a > b\<close> on numbers: false as soon as one side is \<open>NaN\<close>.\<close>

definition js_gt :: "real option \<Rightarrow> real option \<Rightarrow> bool" where
  "js_gt a b = (case a of None \<Rightarrow> False | Some x \<Rightarrow> (case b of None \<Rightarrow> False | Some y \<Rightarrow> x > y))"

text \<open>\<open>d1 > d2\<close> on dates compares the time values.\<close>

definition date_gt :: "int option \<Rightarrow> int option \<Rightarrow> bool" where
  "date_gt a b = js_gt (map_option real_of_int a) (map_option real_of_int b)"

text \<open>\<open>Math.round\<close>: the nearest integer, a half rounded up.\<close>

definition Math_round :: "real \<Rightarrow> int" where
  "Math_round x = \<lfloor>x + 1 / 2\<rfloor>"

text \<open>\<open>!s\<close> on a value that is a string or \<open>undefined\<close> (\<open>None\<close>).\<close>

definition falsy :: "string option \<Rightarrow> bool" where
  "falsy s = (case s of None \<Rightarrow> True | Some t \<Rightarrow> t = [])"

text \<open>\<open>s.split('.')\<close>: the segments between the separators, at least one.\<close>

fun split_dot :: "string \<Rightarrow> string list" where
  "split_dot [] = [[]]"
| "split_dot (c # cs) =
     (if c = CHR ''.'' then [] # split_dot cs
      else (case split_dot cs of [] \<Rightarrow> [[c]] | p # ps \<Rightarrow> (c # p) # ps))"

text \<open>Array destructuring \<open>[a, b] = xs\<close>: a missing element is \<open>undefined\<close>.\<close>

definition element :: "'a list \<Rightarrow> nat \<Rightarrow> 'a option" where
  "element xs i = (if i < length xs then Some (xs ! i) else None)"

text \<open>
  \<open>v.k\<close> on a value that \<open>JSON.parse\<close> returned: a \<open>TypeError\<close> on \<open>null\<close>, the member of an
  object, and \<open>undefined\<close> where there is no such member.
\<close>

definition get_prop :: "jsval \<Rightarrow> string \<Rightarrow> exn + jsval" where
  "get_prop v k =
     (case v of
        JNull \<Rightarrow> Inl ''TypeError: Cannot read properties of null''
      | JUndefined \<Rightarrow> Inl ''TypeError: Cannot read properties of undefined''
      | JObj kvs \<Rightarrow> (case map_of kvs k of None \<Rightarrow> Inr JUndefined | Some x \<Rightarrow> Inr x)
      | _ \<Rightarrow> Inr JUndefined)"

text \<open>
  \<open>createHmac('sha256', key).update(data).digest()\<close>: HMAC (RFC 2104) over SHA-256, whose
  block is 64 bytes. A key longer than a block is hashed first; the key is then padded with
  zero bytes to the length of a block.
\<close>

definition hmac_block_key :: "lib \<Rightarrow> bytes \<Rightarrow> bytes" where
  "hmac_block_key L key =
     (let k0 = (if length key > 64 then sha256 L key else key)
      in k0 @ replicate (64 - length k0) 0)"

definition hmac_sha256 :: "lib \<Rightarrow> bytes \<Rightarrow> bytes \<Rightarrow> bytes" where
  "hmac_sha256 L key msg =
     (let k = hmac_block_key L key
      in sha256 L (map (\<lambda>b. b XOR 0x5c) k @ sha256 L (map (\<lambda>b. b XOR 0x36) k @ msg)))"

definition createHmac_sha256 :: "lib \<Rightarrow> string \<Rightarrow> string \<Rightarrow> bytes" where
  "createHmac_sha256 L key data = hmac_sha256 L (utf8_encode L key) (utf8_encode L data)"

text \<open>\<open>createHash('sha256').update(s).digest('hex')\<close>.\<close>

definition sha256_hex :: "lib \<Rightarrow> string \<Rightarrow> string" where
  "sha256_hex L s = hex_encode L (sha256 L (utf8_encode L s))"

section \<open>Proof engine (\<open>crypto/verification.ts\<close>)\<close>

record 's VerificationProofData =
  userId :: 's
  nodeId :: 's
  timestamp :: 's
  verifierSignature :: 's
  proofHash :: 's
  expiresAt :: 's
  metadata :: "(string \<times> jsval) list option"

text \<open>
  The fields of \<open>VerificationCeremonyData\<close>; \<open>cd_\<close> marks the ones whose names the proof
  record has too.
\<close>

record VerificationCeremonyData =
  cd_userId :: string
  cd_nodeId :: string
  documentHash :: string
  biometricHash :: string
  cd_timestamp :: string
  operatorId :: string

record validation =
  isValid :: bool
  reason :: "string option"

definition PROOF_VERSION :: string where
  "PROOF_VERSION = ''v1''"

definition VALIDITY_DAYS :: int where
  "VALIDITY_DAYS = 90"

text \<open>
  \<open>generateProofHash\<close>: the members are serialized in the sorted order of their keys
  (\<open>JSON.stringify(proofData, Object.keys(proofData).sort())\<close>).
\<close>

definition generateProofHash :: "lib \<Rightarrow> (string \<times> jsval) list \<Rightarrow> string" where
  "generateProofHash L proofData =
     (let dataString = JSON_stringify L (JObj (sort_key fst proofData))
      in sha256_hex L dataString)"

text \<open>
  \<open>generateVerificationProof\<close> reads the clock twice: \<open>t1\<close> is the value of \<open>new Date()\<close> on
  line 35 and \<open>t2\<close> the value of \<open>Date.now()\<close> on line 36. \<open>ed25519.sign\<close> is given the hex
  string of the hash, which it reads as the bytes that the string spells.
\<close>

definition generateVerificationProof ::
  "lib \<Rightarrow> int \<Rightarrow> int \<Rightarrow> VerificationCeremonyData \<Rightarrow> string \<Rightarrow> exn + string VerificationProofData"
where
  "generateVerificationProof L t1 t2 ceremonyData nodePrivateKey =
     (let timestamp' = toISOString L t1;
          expiresAt' = toISOString L (t2 + VALIDITY_DAYS * 24 * 60 * 60 * 1000);
          proofPayload =
            [(''version'', JStr PROOF_VERSION),
             (''userId'', JStr (cd_userId ceremonyData)),
             (''nodeId'', JStr (cd_nodeId ceremonyData)),
             (''timestamp'', JStr timestamp'),
             (''expiresAt'', JStr expiresAt'),
             (''documentHash'', JStr (documentHash ceremonyData)),
             (''biometricHash'', JStr (biometricHash ceremonyData)),
             (''operatorId'', JStr (operatorId ceremonyData))];
          proofHash' = generateProofHash L proofPayload;
          privateKeyBytes = base64_decode L nodePrivateKey
      in case ed25519_sign L (hex_decode L proofHash') privateKeyBytes of
           Inl e \<Rightarrow> Inl e
         | Inr signature \<Rightarrow>
             Inr \<lparr>userId = cd_userId ceremonyData,
                  nodeId = cd_nodeId ceremonyData,
                  timestamp = timestamp',
                  verifierSignature = base64_encode L signature,
                  proofHash = proofHash',
                  expiresAt = expiresAt',
                  metadata = Some [(''version'', JStr PROOF_VERSION),
                                   (''operatorId'', JStr (operatorId ceremonyData))]\<rparr>)"

text \<open>
  \<open>validateVerificationProof\<close> reads the clock twice as well: \<open>n1\<close> for the expiry check and
  \<open>n2\<close> for the age check. An exception of \<open>ed25519.verify\<close> is caught and reported.
\<close>

definition validateVerificationProof ::
  "lib \<Rightarrow> int \<Rightarrow> int \<Rightarrow> string VerificationProofData \<Rightarrow> string \<Rightarrow> validation"
where
  "validateVerificationProof L n1 n2 proof' nodePublicKey =
     (if date_gt (Some n1) (new_Date L (JStr (expiresAt proof')))
      then \<lparr>isValid = False, reason = Some ''Proof has expired''\<rparr>
      else
        let publicKeyBytes = base64_decode L nodePublicKey;
            signatureBytes = base64_decode L (verifierSignature proof');
            proofHashBytes = hex_decode L (proofHash proof')
        in case ed25519_verify L signatureBytes proofHashBytes publicKeyBytes of
             Inl e \<Rightarrow> \<lparr>isValid = False, reason = Some (''Validation error: '' @ e)\<rparr>
           | Inr isSignatureValid \<Rightarrow>
               if \<not> isSignatureValid
               then \<lparr>isValid = False, reason = Some ''Invalid signature''\<rparr>
               else
                 let proofDate = new_Date L (JStr (timestamp proof'));
                     daysDiff = map_option
                       (\<lambda>t. real_of_int (n2 - t) / (1000 * 60 * 60 * 24)) proofDate
                 in if js_gt daysDiff (Some (real_of_int VALIDITY_DAYS))
                    then \<lparr>isValid = False, reason = Some ''Proof is too old''\<rparr>
                    else \<lparr>isValid = True, reason = None\<rparr>)"

text \<open>
  \<open>calculateVerificationTrustScore\<close>, at clock reading \<open>now\<close>. The result is \<open>None\<close> when it
  is \<open>NaN\<close>, which is what every step yields once the timestamp is not a date.
\<close>

definition calculateVerificationTrustScore ::
  "lib \<Rightarrow> int \<Rightarrow> string VerificationProofData \<Rightarrow> int option"
where
  "calculateVerificationTrustScore L now proof' =
     (case new_Date L (JStr (timestamp proof')) of
        None \<Rightarrow> None
      | Some proofDate \<Rightarrow>
          let daysSinceVerification = real_of_int (now - proofDate) / (1000 * 60 * 60 * 24);
              score = 100;
              score = score - daysSinceVerification * 0.5;
              score = max 10 score;
              score = (if daysSinceVerification \<le> 7 then score + 10 else score)
          in Some (Math_round score))"

text \<open>
  The score as the specification words it, on the number of days since verification:
  \<open>round(bonus(max(10, 100 - 0.5 * days)))\<close>, the bonus being 10 up to day 7.
\<close>

definition spec_trust_score :: "real \<Rightarrow> int" where
  "spec_trust_score days =
     Math_round (max 10 (100 - 0.5 * days) + (if days \<le> 7 then 10 else 0))"

definition days_between :: "int \<Rightarrow> int \<Rightarrow> real" where
  "days_between t now = real_of_int (now - t) / 86400000"

section \<open>Token codec (\<open>crypto/verification.ts\<close>)\<close>

record token_validation = validation +
  proof_data :: "jsval VerificationProofData option"

definition token_payload :: "string VerificationProofData \<Rightarrow> jsval" where
  "token_payload proof' =
     JObj [(''userId'', JStr (userId proof')),
           (''nodeId'', JStr (nodeId proof')),
           (''timestamp'', JStr (timestamp proof')),
           (''expiresAt'', JStr (expiresAt proof')),
           (''proofHash'', JStr (proofHash proof'))]"

definition createProofToken :: "lib \<Rightarrow> string VerificationProofData \<Rightarrow> string \<Rightarrow> string" where
  "createProofToken L proof' secretKey =
     (let payload = token_payload proof';
          payloadString = base64_encode L (utf8_encode L (JSON_stringify L payload));
          signature = base64_encode L (createHmac_sha256 L secretKey payloadString)
      in payloadString @ ''.'' @ signature)"

definition token_invalid :: "string \<Rightarrow> token_validation" where
  "token_invalid r = \<lparr>isValid = False, reason = Some r, proof_data = None\<rparr>"

text \<open>
  The part of \<open>validateProofToken\<close> after the signature check: decoding the payload and
  reading its members can throw, which the function's \<open>catch\<close> turns into a result.
\<close>

definition decode_token_payload :: "lib \<Rightarrow> int \<Rightarrow> string \<Rightarrow> exn + token_validation" where
  "decode_token_payload L now payloadString =
     (case JSON_parse L (utf8_decode L (base64_decode L payloadString)) of
        Inl e \<Rightarrow> Inl e
      | Inr payload \<Rightarrow>
          (case get_prop payload ''expiresAt'' of
             Inl e \<Rightarrow> Inl e
           | Inr expiresAt' \<Rightarrow>
               if date_gt (Some now) (new_Date L expiresAt')
               then Inr (token_invalid ''Token has expired'')
               else
                 (case (get_prop payload ''userId'', get_prop payload ''nodeId'',
                        get_prop payload ''timestamp'', get_prop payload ''proofHash'') of
                    (Inr userId', Inr nodeId', Inr timestamp', Inr proofHash') \<Rightarrow>
                      Inr \<lparr>isValid = True, reason = None,
                           proof_data = Some
                             \<lparr>userId = userId',
                              nodeId = nodeId',
                              timestamp = timestamp',
                              verifierSignature = JStr '''',
                              proofHash = proofHash',
                              expiresAt = expiresAt',
                              metadata = None\<rparr>\<rparr>
                  | _ \<Rightarrow> Inl ''TypeError'')))"

definition validateProofToken :: "lib \<Rightarrow> int \<Rightarrow> string \<Rightarrow> string \<Rightarrow> token_validation" where
  "validateProofToken L now token secretKey =
     (let parts = split_dot token;
          payloadString = element parts 0;
          signature = element parts 1
      in if falsy payloadString \<or> falsy signature
         then token_invalid ''Invalid token format''
         else
           (case (payloadString, signature) of
              (Some payloadString', Some signature') \<Rightarrow>
                let expectedSignature =
                      base64_encode L (createHmac_sha256 L secretKey payloadString')
                in if signature' \<noteq> expectedSignature
                   then token_invalid ''Invalid token signature''
                   else
                     (case decode_token_payload L now payloadString' of
                        Inl e \<Rightarrow> token_invalid (''Token validation error: '' @ e)
                      | Inr r \<Rightarrow> r)
            | _ \<Rightarrow> token_invalid ''Invalid token format''))"

section \<open>Key manager (\<open>crypto/keys.ts\<close>)\<close>

text \<open>
  \<open>deriveKey\<close>: \<open>fresh\<close> is what \<open>randomBytes(32)\<close> returns, used when no salt is passed (a
  \<open>Uint8Array\<close> is never falsy, so a salt that is passed is always the one used).
\<close>

definition deriveKey :: "lib \<Rightarrow> bytes \<Rightarrow> string \<Rightarrow> bytes option \<Rightarrow> bytes \<times> bytes" where
  "deriveKey L fresh password salt =
     (let keySalt = (case salt of None \<Rightarrow> fresh | Some s \<Rightarrow> s);
          key = pbkdf2Sync L password keySalt 100000 32
      in (key, keySalt))"

text \<open>
  A cipher or decipher of \<open>aes-256-ctr\<close>: \<open>update\<close> followed by \<open>final\<close> returns the input
  combined byte by byte with the key stream. Counter mode has no padding and no
  authentication tag, so neither call throws.
\<close>

definition aes_256_ctr :: "lib \<Rightarrow> bytes \<Rightarrow> bytes \<Rightarrow> exn + bytes" where
  "aes_256_ctr L password data =
     Inr (map (\<lambda>(i, b). b XOR ctr_keystream L password i) (enumerate 0 data))"

record encrypted_key =
  encrypted :: string
  salt :: string
  iv :: string

text \<open>
  \<open>encryptPrivateKey\<close>: \<open>freshSalt\<close> and \<open>freshIv\<close> are the two values of \<open>randomBytes\<close>. The
  initialization vector is returned but never handed to the cipher.
\<close>

definition encryptPrivateKey :: "lib \<Rightarrow> bytes \<Rightarrow> bytes \<Rightarrow> bytes \<Rightarrow> string \<Rightarrow> exn + encrypted_key" where
  "encryptPrivateKey L freshSalt freshIv privateKey password =
     (let (key, salt') = deriveKey L freshSalt password None;
          iv' = freshIv
      in case aes_256_ctr L key privateKey of
           Inl e \<Rightarrow> Inl e
         | Inr encrypted' \<Rightarrow>
             Inr \<lparr>encrypted = base64_encode L encrypted',
                  salt = base64_encode L salt',
                  iv = base64_encode L iv'\<rparr>)"

text \<open>
  \<open>decryptPrivateKey\<close> passes a salt to \<open>deriveKey\<close>, so no random bytes are drawn there.
\<close>

definition decryptPrivateKey :: "lib \<Rightarrow> string \<Rightarrow> string \<Rightarrow> string \<Rightarrow> exn + bytes" where
  "decryptPrivateKey L encrypted' salt' password =
     (let (key, _) = deriveKey L [] password (Some (base64_decode L salt'));
          ciphertext = base64_decode L encrypted'
      in case aes_256_ctr L key ciphertext of
           Inl e \<Rightarrow> Inl ''Failed to decrypt private key - invalid password''
         | Inr decrypted \<Rightarrow> Inr decrypted)"

section \<open>Store and ceremony orchestrator (\<open>VerificationNodeService\<close>)\<close>

text \<open>
  The rows of the three tables the orchestrator touches, with the columns it reads or
  writes. \<open>is_valid\<close> is not given by the inserts: the schema
  (\<open>migrations/001_create_users.ts\<close>) makes it \<open>true\<close> by default.
\<close>

record verification_event =
  user_id :: string
  node_id :: string
  proof_hash :: string
  node_signature :: string
  verified_at :: "int option"
  expires_at :: "int option"
  is_valid :: bool
  event_metadata :: "(string \<times> jsval) list option"

record verification_node =
  node_key :: string
  public_key :: string
  is_active :: bool
  verification_count :: int

record audit_log =
  audit_user_id :: string
  action :: string
  resource_type :: string
  resource_id :: string
  ip_address :: string
  audit_metadata :: "(string \<times> jsval) list"

record db =
  verification_events :: "verification_event list"
  verification_nodes :: "verification_node list"
  audit_logs :: "audit_log list"

text \<open>
  The store: what is committed, and the view of the transaction that is open, if one is.
  Statements issued on the transaction handle read and write the view only; \<open>commit\<close>
  makes the view the committed state, \<open>rollback\<close> drops it.
\<close>

record store =
  committed :: db
  pending :: "db option"

definition transaction :: "store \<Rightarrow> store" where
  "transaction st = st\<lparr>pending := Some (committed st)\<rparr>"

definition trx_view :: "store \<Rightarrow> db" where
  "trx_view st = (case pending st of None \<Rightarrow> committed st | Some w \<Rightarrow> w)"

definition trx_write :: "(db \<Rightarrow> db) \<Rightarrow> store \<Rightarrow> store" where
  "trx_write f st = st\<lparr>pending := map_option f (pending st)\<rparr>"

definition trx_commit :: "store \<Rightarrow> store" where
  "trx_commit st =
     (case pending st of None \<Rightarrow> st | Some w \<Rightarrow> \<lparr>committed = w, pending = None\<rparr>)"

definition trx_rollback :: "store \<Rightarrow> store" where
  "trx_rollback st = st\<lparr>pending := None\<rparr>"

text \<open>\<open>.first()\<close>: the first row of a result, or \<open>undefined\<close>.\<close>

definition first_row :: "'a list \<Rightarrow> 'a option" where
  "first_row rows = (case rows of [] \<Rightarrow> None | r # _ \<Rightarrow> Some r)"

text \<open>\<open>.orderBy(col, 'desc')\<close> on a column of dates (\<open>None\<close> is SQL's \<open>NULL\<close>).\<close>

definition orderBy_desc :: "('a \<Rightarrow> int option) \<Rightarrow> 'a list \<Rightarrow> 'a list" where
  "orderBy_desc col rows =
     rev (sort_key (\<lambda>r. case col r of None \<Rightarrow> (1::int, 0) | Some t \<Rightarrow> (0, t)) rows)"

text \<open>The statements the orchestrator issues.\<close>

definition select_active_node :: "string \<Rightarrow> db \<Rightarrow> verification_node option" where
  "select_active_node nid d =
     first_row (filter (\<lambda>n. node_key n = nid \<and> is_active n) (verification_nodes d))"

definition select_active_event :: "string \<Rightarrow> db \<Rightarrow> verification_event option" where
  "select_active_event uid d =
     first_row (orderBy_desc verified_at
       (filter (\<lambda>e. user_id e = uid \<and> is_valid e) (verification_events d)))"

definition insert_verification_event :: "verification_event \<Rightarrow> db \<Rightarrow> db" where
  "insert_verification_event e d = d\<lparr>verification_events := verification_events d @ [e]\<rparr>"

definition invalidate_events :: "string \<Rightarrow> db \<Rightarrow> db" where
  "invalidate_events uid d =
     d\<lparr>verification_events :=
         map (\<lambda>e. if user_id e = uid \<and> is_valid e then e\<lparr>is_valid := False\<rparr> else e)
           (verification_events d)\<rparr>"

definition increment_verification_count :: "string \<Rightarrow> db \<Rightarrow> db" where
  "increment_verification_count nid d =
     d\<lparr>verification_nodes :=
         map (\<lambda>n. if node_key n = nid
                  then n\<lparr>verification_count := verification_count n + 1\<rparr> else n)
           (verification_nodes d)\<rparr>"

definition insert_audit_log :: "audit_log \<Rightarrow> db \<Rightarrow> db" where
  "insert_audit_log a d = d\<lparr>audit_logs := audit_logs d @ [a]\<rparr>"

text \<open>
  What a call of the orchestrator takes from its surroundings: the readings of the wall
  clock in the order they are taken, the value of \<open>randomUUID()\<close>, and for each awaited
  statement of the transaction, in order, the error it is rejected with, if it is (a
  constraint of the schema, a lost connection).
\<close>

record env =
  clock :: "nat \<Rightarrow> int"
  randomUUID :: string
  store_error :: "nat \<Rightarrow> exn option"

record CeremonyRequest =
  req_nodeId :: string
  req_operatorId :: string
  documentType :: string
  documentNumber :: string
  fullName :: string
  dateOfBirth :: string
  biometricData :: "string option"

record CeremonyResult =
  success :: bool
  verificationProof :: "string option"
  error :: "string option"
  res_userId :: "string option"

definition hashDocument :: "lib \<Rightarrow> CeremonyRequest \<Rightarrow> string" where
  "hashDocument L request =
     (let documentString = documentType request @ '':'' @ documentNumber request @ '':'' @
                           fullName request @ '':'' @ dateOfBirth request
      in sha256_hex L (toLowerCase L documentString))"

definition hashBiometricData :: "lib \<Rightarrow> string \<Rightarrow> string" where
  "hashBiometricData L biometricData' = sha256_hex L biometricData'"

definition findUserByDocumentHash :: "string \<Rightarrow> string option" where
  "findUserByDocumentHash documentHash' = None"

definition proof_json :: "string VerificationProofData \<Rightarrow> jsval" where
  "proof_json p =
     JObj ([(''userId'', JStr (userId p)),
            (''nodeId'', JStr (nodeId p)),
            (''timestamp'', JStr (timestamp p)),
            (''verifierSignature'', JStr (verifierSignature p)),
            (''proofHash'', JStr (proofHash p)),
            (''expiresAt'', JStr (expiresAt p))] @
           (case metadata p of None \<Rightarrow> [] | Some m \<Rightarrow> [(''metadata'', JObj m)]))"

definition event_of_proof ::
  "lib \<Rightarrow> string \<Rightarrow> string \<Rightarrow> string VerificationProofData \<Rightarrow> (string \<times> jsval) list option
     \<Rightarrow> verification_event"
where
  "event_of_proof L uid nid p meta =
     \<lparr>user_id = uid,
      node_id = nid,
      proof_hash = proofHash p,
      node_signature = verifierSignature p,
      verified_at = new_Date L (JStr (timestamp p)),
      expires_at = new_Date L (JStr (expiresAt p)),
      is_valid = True,
      event_metadata = meta\<rparr>"

definition ceremony_failed :: "string \<Rightarrow> string option \<Rightarrow> CeremonyResult" where
  "ceremony_failed msg uid =
     \<lparr>success = False, verificationProof = None, error = Some msg, res_userId = uid\<rparr>"

text \<open>
  An awaited statement of the transaction, the \<open>k\<close>-th of the call: when the store rejects
  it, the exception leaves the \<open>try\<close> block with the store as it is (\<open>Inl\<close>); otherwise the
  block goes on with \<open>rest\<close>.
\<close>

definition awaited ::
  "env \<Rightarrow> nat \<Rightarrow> store \<Rightarrow> (exn \<times> store) + 'a \<Rightarrow> (exn \<times> store) + 'a"
where
  "awaited E k st rest = (case store_error E k of Some e \<Rightarrow> Inl (e, st) | None \<Rightarrow> rest)"

text \<open>The object literals of \<open>conductVerificationCeremony\<close>.\<close>

definition ceremony_data :: "lib \<Rightarrow> env \<Rightarrow> CeremonyRequest \<Rightarrow> VerificationCeremonyData" where
  "ceremony_data L E ceremonyRequest =
     \<lparr>cd_userId = randomUUID E,
      cd_nodeId = req_nodeId ceremonyRequest,
      documentHash = hashDocument L ceremonyRequest,
      biometricHash =
        (case biometricData ceremonyRequest of
           None \<Rightarrow> []
         | Some b \<Rightarrow> if b = [] then [] else hashBiometricData L b),
      cd_timestamp = toISOString L (clock E 0),
      operatorId = req_operatorId ceremonyRequest\<rparr>"

definition ceremony_audit_log :: "env \<Rightarrow> CeremonyRequest \<Rightarrow> audit_log" where
  "ceremony_audit_log E ceremonyRequest =
     \<lparr>audit_user_id = randomUUID E,
      action = ''verification_ceremony'',
      resource_type = ''verification'',
      resource_id = randomUUID E,
      ip_address = ''127.0.0.1'',
      audit_metadata =
        [(''node_id'', JStr (req_nodeId ceremonyRequest)),
         (''operator_id'', JStr (req_operatorId ceremonyRequest)),
         (''document_type'', JStr (documentType ceremonyRequest))]\<rparr>"

definition ceremony_succeeded :: "lib \<Rightarrow> string \<Rightarrow> string VerificationProofData \<Rightarrow> CeremonyResult" where
  "ceremony_succeeded L uid p =
     \<lparr>success = True,
      verificationProof = Some (JSON_stringify L (proof_json p)),
      error = None,
      res_userId = Some uid\<rparr>"

text \<open>
  The \<open>try\<close> block of \<open>conductVerificationCeremony\<close>, on the store with the transaction
  open. \<open>Inl\<close> is an exception thrown out of the block; \<open>Inr\<close> is a value returned from
  inside it. The node's \<open>public_key\<close> is what the block passes to
  \<open>generateVerificationProof\<close> as the signing key.
\<close>

definition ceremony_try ::
  "lib \<Rightarrow> env \<Rightarrow> CeremonyRequest \<Rightarrow> store \<Rightarrow> (exn \<times> store) + (CeremonyResult \<times> store)"
where
  "ceremony_try L E ceremonyRequest st =
     awaited E 0 st
    (case select_active_node (req_nodeId ceremonyRequest) (trx_view st) of
       None \<Rightarrow>
         Inr (ceremony_failed ''Invalid or inactive verification node'' None, trx_rollback st)
     | Some node \<Rightarrow>
        (let documentHash' = hashDocument L ceremonyRequest
         in (case findUserByDocumentHash documentHash' of
               Some existingUser \<Rightarrow>
                 Inr (ceremony_failed ''User with this document already exists''
                        (Some existingUser), trx_rollback st)
             | None \<Rightarrow>
                (let userId' = randomUUID E;
                     ceremonyData = ceremony_data L E ceremonyRequest
                 in (case generateVerificationProof L (clock E 1) (clock E 2) ceremonyData
                            (public_key node) of
                       Inl e \<Rightarrow> Inl (e, st)
                     | Inr verificationProof' \<Rightarrow>
                         awaited E 1 st
                        (let st1 = trx_write (insert_verification_event
                                     (event_of_proof L userId' (req_nodeId ceremonyRequest)
                                        verificationProof' (metadata verificationProof'))) st
                         in awaited E 2 st1
                        (let st2 = trx_write
                                     (increment_verification_count
                                        (req_nodeId ceremonyRequest)) st1
                         in awaited E 3 st2
                        (let st3 = trx_write
                                     (insert_audit_log (ceremony_audit_log E ceremonyRequest))
                                     st2
                         in awaited E 4 st3
                           (Inr (ceremony_succeeded L userId' verificationProof',
                                 trx_commit st3))))))))))"

definition conductVerificationCeremony ::
  "lib \<Rightarrow> env \<Rightarrow> CeremonyRequest \<Rightarrow> store \<Rightarrow> CeremonyResult \<times> store"
where
  "conductVerificationCeremony L E ceremonyRequest st0 =
     (let trx = transaction st0
      in case ceremony_try L E ceremonyRequest trx of
           Inr r \<Rightarrow> r
         | Inl (e, st) \<Rightarrow> (ceremony_failed (''Ceremony failed: '' @ e) None, trx_rollback st))"

text \<open>The object literals of \<open>renewVerification\<close>.\<close>

definition renewal_data ::
  "lib \<Rightarrow> env \<Rightarrow> string \<Rightarrow> string \<Rightarrow> string \<Rightarrow> VerificationCeremonyData"
where
  "renewal_data L E userId' nodeId' operatorId' =
     \<lparr>cd_userId = userId',
      cd_nodeId = nodeId',
      documentHash = [],
      biometricHash = [],
      cd_timestamp = toISOString L (clock E 0),
      operatorId = operatorId'\<rparr>"

definition renewal_metadata :: "string VerificationProofData \<Rightarrow> (string \<times> jsval) list option" where
  "renewal_metadata p =
     Some ((case metadata p of None \<Rightarrow> [] | Some m \<Rightarrow> m) @ [(''renewal'', JBool True)])"

text \<open>The \<open>try\<close> block of \<open>renewVerification\<close>, read the same way.\<close>

definition renewal_try ::
  "lib \<Rightarrow> env \<Rightarrow> string \<Rightarrow> string \<Rightarrow> string \<Rightarrow> store
     \<Rightarrow> (exn \<times> store) + (CeremonyResult \<times> store)"
where
  "renewal_try L E userId' nodeId' operatorId' st =
     awaited E 0 st
    (case select_active_event userId' (trx_view st) of
       None \<Rightarrow>
         Inr (ceremony_failed ''No existing verification found for user'' None,
              trx_rollback st)
     | Some existingVerification \<Rightarrow>
         awaited E 1 st
        (let st1 = trx_write (invalidate_events userId') st;
             ceremonyData = renewal_data L E userId' nodeId' operatorId'
         in awaited E 2 st1
           (case select_active_node nodeId' (trx_view st1) of
              None \<Rightarrow>
                Inr (ceremony_failed ''Invalid or inactive verification node'' None,
                     trx_rollback st1)
            | Some node \<Rightarrow>
               (case generateVerificationProof L (clock E 1) (clock E 2) ceremonyData
                       (public_key node) of
                  Inl e \<Rightarrow> Inl (e, st1)
                | Inr verificationProof' \<Rightarrow>
                    awaited E 3 st1
                   (let st2 = trx_write (insert_verification_event
                                (event_of_proof L userId' nodeId' verificationProof'
                                   (renewal_metadata verificationProof'))) st1
                    in awaited E 4 st2
                      (Inr (ceremony_succeeded L userId' verificationProof',
                            trx_commit st2)))))))"

definition renewVerification ::
  "lib \<Rightarrow> env \<Rightarrow> string \<Rightarrow> string \<Rightarrow> string \<Rightarrow> store \<Rightarrow> CeremonyResult \<times> store"
where
  "renewVerification L E userId' nodeId' operatorId' st0 =
     (let trx = transaction st0
      in case renewal_try L E userId' nodeId' operatorId' trx of
           Inr r \<Rightarrow> r
         | Inl (e, st) \<Rightarrow> (ceremony_failed (''Renewal failed: '' @ e) None, trx_rollback st))"

section \<open>What the code relies on from the runtime\<close>

text \<open>
  The documented behaviour of the library functions, as far as the properties below use
  it. Encoders are inverted by their decoders, base64 text has no \<open>.\<close> in it, decoding
  the empty text gives no bytes, and \<open>JSON.parse('')\<close> throws.
\<close>

definition date_ok :: "lib \<Rightarrow> bool" where
  "date_ok L = (\<forall>t. new_Date L (JStr (toISOString L t)) = Some t)"

definition base64_ok :: "lib \<Rightarrow> bool" where
  "base64_ok L =
     ((\<forall>bs. base64_decode L (base64_encode L bs) = bs) \<and>
      (\<forall>bs. CHR ''.'' \<notin> set (base64_encode L bs)) \<and>
      base64_decode L [] = [])"

definition utf8_ok :: "lib \<Rightarrow> bool" where
  "utf8_ok L = ((\<forall>s. utf8_decode L (utf8_encode L s) = s) \<and> utf8_decode L [] = [])"

definition sha256_ok :: "lib \<Rightarrow> bool" where
  "sha256_ok L = (\<forall>x. length (sha256 L x) = 32)"

definition is_JStr :: "jsval \<Rightarrow> bool" where
  "is_JStr v = (case v of JStr s \<Rightarrow> True | _ \<Rightarrow> False)"

definition json_ok :: "lib \<Rightarrow> bool" where
  "json_ok L =
     ((\<forall>kvs. distinct (map fst kvs) \<and> list_all (\<lambda>kv. is_JStr (snd kv)) kvs \<longrightarrow>
         JSON_parse L (JSON_stringify L (JObj kvs)) = Inr (JObj kvs)) \<and>
      isl (JSON_parse L []))"

text \<open>
  Ed25519: a private key is 32 bytes; a signature made with it verifies under its public
  key. The second part is the idealisation under which signatures are used: a signature
  does not verify under a public key other than the signer's.
\<close>

definition ed25519_ok :: "lib \<Rightarrow> bool" where
  "ed25519_ok L =
     ((\<forall>msg sk. length sk = 32 \<longrightarrow>
         (\<exists>sig. ed25519_sign L msg sk = Inr sig \<and>
                ed25519_verify L sig msg (ed25519_getPublicKey L sk) = Inr True)) \<and>
      (\<forall>msg sk sig pk. ed25519_sign L msg sk = Inr sig \<and> pk \<noteq> ed25519_getPublicKey L sk \<longrightarrow>
         ed25519_verify L sig msg pk \<noteq> Inr True))"

section \<open>A small executable library\<close>

text \<open>
  An instance of the interface on which the functions above can be evaluated. Its
  encodings are simple ones with the same contracts as the real ones: a byte is written
  in unary, a number in binary digits, a string member character by character.
\<close>

fun unary_encode :: "char \<Rightarrow> char \<Rightarrow> bytes \<Rightarrow> string" where
  "unary_encode a z [] = []"
| "unary_encode a z (b # bs) = replicate (unat b) a @ z # unary_encode a z bs"

fun unary_decode :: "char \<Rightarrow> nat \<Rightarrow> string \<Rightarrow> bytes" where
  "unary_decode z n [] = []"
| "unary_decode z n (c # cs) =
     (if c = z then of_nat n # unary_decode z 0 cs else unary_decode z (Suc n) cs)"

fun nat_bits :: "nat \<Rightarrow> string" where
  "nat_bits n =
     (if n = 0 then []
      else (if even n then CHR ''0'' else CHR ''1'') # nat_bits (n div 2))"

declare nat_bits.simps [simp del]

fun bits_nat :: "string \<Rightarrow> nat" where
  "bits_nat [] = 0"
| "bits_nat (c # cs) = (if c = CHR ''1'' then 1 else 0) + 2 * bits_nat cs"

definition sample_toISOString :: "int \<Rightarrow> string" where
  "sample_toISOString t =
     (if t < 0 then CHR ''-'' # nat_bits (nat (- t)) else CHR ''+'' # nat_bits (nat t))"

definition sample_new_Date :: "jsval \<Rightarrow> int option" where
  "sample_new_Date v =
     (case v of
        JStr (c # cs) \<Rightarrow>
          if c = CHR ''-'' then Some (- int (bits_nat cs))
          else if c = CHR ''+'' then Some (int (bits_nat cs))
          else None
      | _ \<Rightarrow> None)"

definition write_string :: "string \<Rightarrow> string" where
  "write_string s = concat (map (\<lambda>c. [CHR ''c'', c]) s) @ ''$''"

fun read_strings :: "string \<Rightarrow> string \<Rightarrow> string list \<Rightarrow> string list option" where
  "read_strings [] cur out = (if cur = [] then Some (rev out) else None)"
| "read_strings (m # rest) cur out =
     (if m = CHR ''$'' then read_strings rest [] (rev cur # out)
      else (case rest of
              [] \<Rightarrow> None
            | c # rest' \<Rightarrow> read_strings rest' (c # cur) out))"

fun members :: "string list \<Rightarrow> (string \<times> jsval) list option" where
  "members [] = Some []"
| "members [k] = None"
| "members (k # v # rest) = map_option (\<lambda>kvs. (k, JStr v) # kvs) (members rest)"

definition sample_stringify :: "jsval \<Rightarrow> string" where
  "sample_stringify v =
     (case v of
        JObj kvs \<Rightarrow>
          CHR ''{'' # concat (map (\<lambda>kv. write_string (fst kv) @
             write_string (case snd kv of JStr s \<Rightarrow> s | _ \<Rightarrow> [])) kvs)
      | _ \<Rightarrow> ''null'')"

definition sample_parse :: "string \<Rightarrow> exn + jsval" where
  "sample_parse s =
     (case s of
        [] \<Rightarrow> Inl ''SyntaxError: Unexpected end of JSON input''
      | c # rest \<Rightarrow>
          if c = CHR ''{''
          then (case read_strings rest [] [] of
                  None \<Rightarrow> Inl ''SyntaxError''
                | Some ss \<Rightarrow>
                    (case members ss of
                       None \<Rightarrow> Inl ''SyntaxError''
                     | Some kvs \<Rightarrow> Inr (JObj kvs)))
          else if s = ''null'' then Inr JNull
          else Inl ''SyntaxError'')"

definition sample_getPublicKey :: "bytes \<Rightarrow> bytes" where
  "sample_getPublicKey sk = map (\<lambda>b. b + 1) sk"

definition sample_sign :: "bytes \<Rightarrow> bytes \<Rightarrow> exn + bytes" where
  "sample_sign msg sk =
     (if length sk = 32 then Inr (sample_getPublicKey sk @ msg)
      else Inl ''Error: private key of length 32 expected'')"

definition sample_verify :: "bytes \<Rightarrow> bytes \<Rightarrow> bytes \<Rightarrow> exn + bool" where
  "sample_verify sig msg pk =
     (if length pk = 32 then Inr (sig = pk @ msg)
      else Inl ''Error: publicKey of length 32 expected'')"

definition sample_lib :: lib where
  "sample_lib =
     \<lparr>sha256 = (\<lambda>x. take 32 (x @ replicate 32 0)),
      hex_encode = unary_encode (CHR ''f'') (CHR ''0''),
      hex_decode = unary_decode (CHR ''0'') 0,
      base64_encode = unary_encode (CHR ''A'') (CHR ''=''),
      base64_decode = unary_decode (CHR ''='') 0,
      utf8_encode = map (\<lambda>c. of_nat (of_char c)),
      utf8_decode = map (\<lambda>b. char_of (unat b)),
      ed25519_sign = sample_sign,
      ed25519_verify = sample_verify,
      ed25519_getPublicKey = sample_getPublicKey,
      toISOString = sample_toISOString,
      new_Date = sample_new_Date,
      JSON_stringify = sample_stringify,
      JSON_parse = sample_parse,
      pbkdf2Sync = (\<lambda>password salt iterations keylen.
                      take keylen (map (\<lambda>c. of_nat (of_char c)) password @ salt @
                                   replicate keylen 0)),
      ctr_keystream = (\<lambda>password i. (case password of [] \<Rightarrow> 0 | b # _ \<Rightarrow> b) + of_nat i),
      toLowerCase = (\<lambda>s. s)\<rparr>"

text \<open>Inputs on which the functions are evaluated below.\<close>

definition sample_proof :: "string VerificationProofData" where
  "sample_proof =
     \<lparr>userId = ''U'', nodeId = ''N'', timestamp = toISOString sample_lib 0,
      verifierSignature = [], proofHash = [],
      expiresAt = toISOString sample_lib 7776000000, metadata = None\<rparr>"

definition sample_sk :: bytes where
  "sample_sk = replicate 32 1"

definition sample_ceremony :: VerificationCeremonyData where
  "sample_ceremony =
     \<lparr>cd_userId = ''U'', cd_nodeId = ''N'', documentHash = ''d1'', biometricHash = ''b1'',
      cd_timestamp = toISOString sample_lib 0, operatorId = ''op''\<rparr>"

text \<open>
  The first two segments of a token as the wire format names them: the text before the
  first \<open>.\<close>, and the text between the first \<open>.\<close> and the next one (or the end), which
  is missing when the token has no \<open>.\<close> at all.
\<close>

definition first_segment :: "string \<Rightarrow> string" where
  "first_segment token = takeWhile (\<lambda>c. c \<noteq> CHR ''.'') token"

definition second_segment :: "string \<Rightarrow> string option" where
  "second_segment token =
     (if CHR ''.'' \<in> set token
      then Some (takeWhile (\<lambda>c. c \<noteq> CHR ''.'') (tl (dropWhile (\<lambda>c. c \<noteq> CHR ''.'') token)))
      else None)"

text \<open>The payload segment of the token made from a proof, and the proof a valid token yields.\<close>

definition payload_segment :: "lib \<Rightarrow> string VerificationProofData \<Rightarrow> string" where
  "payload_segment L p = base64_encode L (utf8_encode L (JSON_stringify L (token_payload p)))"

definition token_proof :: "string VerificationProofData \<Rightarrow> jsval VerificationProofData" where
  "token_proof p =
     \<lparr>userId = JStr (userId p),
      nodeId = JStr (nodeId p),
      timestamp = JStr (timestamp p),
      verifierSignature = JStr [],
      proofHash = JStr (proofHash p),
      expiresAt = JStr (expiresAt p),
      metadata = None\<rparr>"


text \<open>The rows of a user that count as the active verification: \<open>is_valid = true\<close>.\<close>

definition active_events :: "string \<Rightarrow> db \<Rightarrow> verification_event list" where
  "active_events uid d = filter (\<lambda>e. user_id e = uid \<and> is_valid e) (verification_events d)"

text \<open>
  A store with one active node \<open>N\<close>, whose public key is the one of \<open>sample_sk\<close>, and one
  user \<open>U\<close> with an active verification; surroundings in which the clock stands at 0 and
  the store rejects nothing.
\<close>

definition sample_node :: verification_node where
  "sample_node =
     \<lparr>node_key = ''N'',
      public_key = base64_encode sample_lib (ed25519_getPublicKey sample_lib sample_sk),
      is_active = True,
      verification_count = 0\<rparr>"

definition sample_event :: verification_event where
  "sample_event =
     \<lparr>user_id = ''U'', node_id = ''N'', proof_hash = ''h'', node_signature = ''s'',
      verified_at = Some 0, expires_at = Some 7776000000, is_valid = True,
      event_metadata = None\<rparr>"

definition sample_store :: store where
  "sample_store =
     \<lparr>committed =
        \<lparr>verification_events = [sample_event],
         verification_nodes = [sample_node],
         audit_logs = []\<rparr>,
      pending = None\<rparr>"

definition sample_env :: env where
  "sample_env = \<lparr>clock = (\<lambda>k. 0), randomUUID = ''U2'', store_error = (\<lambda>k. None)\<rparr>"

text \<open>The same surroundings, with the store rejecting the third statement of a call.\<close>

definition sample_env_rejecting :: env where
  "sample_env_rejecting =
     \<lparr>clock = (\<lambda>k. 0), randomUUID = ''U2'',
      store_error = (\<lambda>k. if k = 2 then Some ''connection lost'' else None)\<rparr>"

definition sample_request :: CeremonyRequest where
  "sample_request =
     \<lparr>req_nodeId = ''N'', req_operatorId = ''op'', documentType = ''passport'',
      documentNumber = ''d1'', fullName = ''A B'', dateOfBirth = ''2000-01-01'',
      biometricData = Some ''b1''\<rparr>"


section \<open>Shared utilities (\<open>shared/src/utils/crypto.ts\<close>)\<close>

text \<open>
  \<open>constantTimeCompare\<close> works on the UTF-16 code units of its arguments
  (\<open>length\<close>, \<open>charCodeAt\<close>) and accumulates their differences in a 32-bit integer.
\<close>

type_synonym utf16 = "16 word list"

fun compare_loop :: "32 word \<Rightarrow> utf16 \<Rightarrow> utf16 \<Rightarrow> 32 word" where
  "compare_loop result (x # xs) (y # ys) = compare_loop (result OR ucast (x XOR y)) xs ys"
| "compare_loop result _ _ = result"

definition constantTimeCompare :: "utf16 \<Rightarrow> utf16 \<Rightarrow> bool" where
  "constantTimeCompare a b =
     (if length a \<noteq> length b then False
      else compare_loop 0 a b = 0)"

section \<open>The executable library meets the contracts\<close>

lemma unary_decode_encode:
  "a \<noteq> z \<Longrightarrow> unary_decode z 0 (unary_encode a z bs) = bs"
proof (induction bs)
  case Nil
  show ?case by simp
next
  case (Cons b bs)
  have run: "unary_decode z n (replicate k a @ z # r) = of_nat (n + k) # unary_decode z 0 r"
    for n k r
    using \<open>a \<noteq> z\<close> by (induction k arbitrary: n) simp_all
  show ?case using Cons by (simp add: run)
qed

lemma unary_encode_chars: "set (unary_encode a z bs) \<subseteq> {a, z}"
  by (induction bs) auto

lemma bits_nat_nat_bits: "bits_nat (nat_bits n) = n"
proof (induction n rule: nat_bits.induct)
  case (1 n)
  show ?case
  proof (cases "n = 0")
    case True
    then show ?thesis by (simp add: nat_bits.simps)
  next
    case False
    with 1 have "bits_nat (nat_bits (n div 2)) = n div 2" by simp
    with False show ?thesis by (subst nat_bits.simps) auto
  qed
qed

lemma sample_date_ok: "date_ok sample_lib"
  by (simp add: date_ok_def sample_lib_def sample_new_Date_def sample_toISOString_def
      bits_nat_nat_bits)

lemma sample_base64_ok: "base64_ok sample_lib"
proof -
  have "CHR ''.'' \<notin> set (unary_encode (CHR ''A'') (CHR ''='') bs)" for bs
    using unary_encode_chars [of "CHR ''A''" "CHR ''=''" bs] by auto
  then show ?thesis
    by (simp add: base64_ok_def sample_lib_def unary_decode_encode)
qed

lemma sample_utf8_ok: "utf8_ok sample_lib"
  by (simp add: utf8_ok_def sample_lib_def comp_def unat_of_nat)

lemma sample_sha256_ok: "sha256_ok sample_lib"
  by (auto simp: sha256_ok_def sample_lib_def min_def)

lemma read_chars:
  "read_strings (concat (map (\<lambda>c. [CHR ''c'', c]) s) @ r) cur out
     = read_strings r (rev s @ cur) out"
  by (induction s arbitrary: cur) simp_all

lemma read_write_string:
  "read_strings (write_string s @ r) [] out = read_strings r [] (s # out)"
  by (simp add: write_string_def read_chars)

lemma read_write_strings:
  "read_strings (concat (map write_string ss)) [] out = Some (rev out @ ss)"
  by (induction ss arbitrary: out) (simp_all add: read_write_string)

lemma members_flat:
  "list_all (\<lambda>kv. is_JStr (snd kv)) kvs \<Longrightarrow>
   members (concat (map (\<lambda>kv. [fst kv, (case snd kv of JStr s \<Rightarrow> s | _ \<Rightarrow> [])]) kvs))
     = Some kvs"
  by (induction kvs) (auto simp: is_JStr_def split: jsval.splits)

lemma sample_json_ok: "json_ok sample_lib"
proof -
  have flat: "concat (map (\<lambda>kv. write_string (fst kv) @
                 write_string (case snd kv of JStr s \<Rightarrow> s | _ \<Rightarrow> [])) kvs)
      = concat (map write_string
          (concat (map (\<lambda>kv. [fst kv, (case snd kv of JStr s \<Rightarrow> s | _ \<Rightarrow> [])]) kvs)))"
    for kvs :: "(string \<times> jsval) list"
    by (induction kvs) simp_all
  show ?thesis
    by (simp add: json_ok_def sample_lib_def sample_parse_def sample_stringify_def flat
        read_write_strings members_flat)
qed

lemma sample_ed25519_ok: "ed25519_ok sample_lib"
  by (auto simp: ed25519_ok_def sample_lib_def sample_sign_def sample_verify_def
      sample_getPublicKey_def)

section \<open>Trust score\<close>

lemma spec_trust_score_ge: "10 \<le> spec_trust_score d"
  unfolding spec_trust_score_def Math_round_def
  by (auto simp: le_floor_iff max_def)

lemma spec_trust_score_mono: "d \<le> d' \<Longrightarrow> spec_trust_score d' \<le> spec_trust_score d"
  unfolding spec_trust_score_def Math_round_def
  by (intro floor_mono) (auto simp: max_def)

lemma spec_trust_score_0: "spec_trust_score 0 = 110"
  by (simp add: spec_trust_score_def Math_round_def)

lemma trust_score_formula:
  assumes "new_Date L (JStr (timestamp p)) = Some t"
  shows "calculateVerificationTrustScore L now p = Some (spec_trust_score (days_between t now))"
  using assms
  by (simp add: calculateVerificationTrustScore_def spec_trust_score_def days_between_def
      Let_def)

lemma sample_proof_timestamp: "new_Date sample_lib (JStr (timestamp sample_proof)) = Some 0"
  using sample_date_ok by (simp add: date_ok_def sample_proof_def)

text \<open>
  C4, as amended. For a proof whose timestamp is a date, \<open>calculateVerificationTrustScore\<close>
  computes \<open>round(bonus(max(10, 100 - 0.5 * days)))\<close> on the days since verification, the
  bonus of 10 applying exactly up to day 7. That score is never below 10 and never grows
  with the days (on the whole axis, hence beyond day 7). At day 0 it is 110: the base of
  100 and the bonus.
\<close>

theorem trust_score_amended:
  assumes "new_Date L (JStr (timestamp p)) = Some t"
  shows "calculateVerificationTrustScore L now p = Some (spec_trust_score (days_between t now)) \<and>
         (\<forall>d. 10 \<le> spec_trust_score d) \<and>
         (\<forall>d d'. d \<le> d' \<longrightarrow> spec_trust_score d' \<le> spec_trust_score d) \<and>
         calculateVerificationTrustScore L t p = Some 110"
  using assms trust_score_formula [OF assms]
  by (simp add: spec_trust_score_ge spec_trust_score_mono trust_score_formula days_between_def
      spec_trust_score_0)

text \<open>Thirty days after verification the score is 85; on the day itself it is 110.\<close>

theorem trust_score_amended_witness:
  "new_Date sample_lib (JStr (timestamp sample_proof)) = Some 0 \<and>
   calculateVerificationTrustScore sample_lib 2592000000 sample_proof = Some 85 \<and>
   calculateVerificationTrustScore sample_lib 0 sample_proof = Some 110"
  using trust_score_amended [OF sample_proof_timestamp, of 2592000000]
  by (simp add: sample_proof_timestamp spec_trust_score_def days_between_def Math_round_def)

text \<open>
  C4 as stated has the score equal 100 at day 0. Scored at the very millisecond of its
  timestamp, a proof gets 110.
\<close>

theorem trust_score_day_zero_counterexample:
  "calculateVerificationTrustScore sample_lib 0 sample_proof = Some 110 \<and>
   calculateVerificationTrustScore sample_lib 0 sample_proof \<noteq> Some 100"
  using trust_score_formula [OF sample_proof_timestamp, of 0]
  by (simp add: spec_trust_score_0 days_between_def)

section \<open>Generated proofs and their validation\<close>

lemma generate_Inr:
  assumes "generateVerificationProof L t1 t2 cd key = Inr p"
  shows "timestamp p = toISOString L t1"
    and "expiresAt p = toISOString L (t2 + 7776000000)"
    and "userId p = cd_userId cd"
    and "nodeId p = cd_nodeId cd"
    and "\<exists>sig. ed25519_sign L (hex_decode L (proofHash p)) (base64_decode L key) = Inr sig \<and>
               verifierSignature p = base64_encode L sig"
  using assms
  by (auto simp: generateVerificationProof_def Let_def VALIDITY_DAYS_def split: sum.splits)

lemma generate_succeeds:
  assumes "ed25519_ok L" and "length (base64_decode L key) = 32"
  shows "\<exists>p. generateVerificationProof L t1 t2 cd key = Inr p"
proof -
  let ?h = "generateProofHash L
            [(''version'', JStr PROOF_VERSION),
             (''userId'', JStr (cd_userId cd)),
             (''nodeId'', JStr (cd_nodeId cd)),
             (''timestamp'', JStr (toISOString L t1)),
             (''expiresAt'', JStr (toISOString L (t2 + VALIDITY_DAYS * 24 * 60 * 60 * 1000))),
             (''documentHash'', JStr (documentHash cd)),
             (''biometricHash'', JStr (biometricHash cd)),
             (''operatorId'', JStr (operatorId cd))]"
  from assms obtain sig where "ed25519_sign L (hex_decode L ?h) (base64_decode L key) = Inr sig"
    unfolding ed25519_ok_def by blast
  then show ?thesis
    by (simp add: generateVerificationProof_def Let_def)
qed

lemma too_old_iff:
  "js_gt (Some (real_of_int d / (1000 * 60 * 60 * 24))) (Some (real_of_int VALIDITY_DAYS))
     \<longleftrightarrow> 7776000000 < d"
proof -
  have "real_of_int d / 86400000 > 90 \<longleftrightarrow> real_of_int d > 7776000000"
    by (simp add: field_simps)
  also have "\<dots> \<longleftrightarrow> d > 7776000000"
    by linarith
  finally show ?thesis
    by (simp add: js_gt_def VALIDITY_DAYS_def)
qed

lemma too_old_iff':
  "js_gt (Some ((real_of_int a - real_of_int b) / 86400000)) (Some (real_of_int VALIDITY_DAYS))
     \<longleftrightarrow> 7776000000 < a - b"
  using too_old_iff [of "a - b"] by simp

lemma expired_iff: "date_gt (Some n) (Some e) \<longleftrightarrow> e < n"
  by (simp add: date_gt_def js_gt_def)

lemma validate_generated:
  assumes lib: "ed25519_ok L" "base64_ok L" "date_ok L"
    and sk: "length sk = 32"
    and gen: "generateVerificationProof L t1 t2 cd (base64_encode L sk) = Inr p"
  shows "validateVerificationProof L n1 n2 p (base64_encode L (ed25519_getPublicKey L sk)) =
           (if t2 + 7776000000 < n1 then \<lparr>isValid = False, reason = Some ''Proof has expired''\<rparr>
            else if 7776000000 < n2 - t1 then \<lparr>isValid = False, reason = Some ''Proof is too old''\<rparr>
            else \<lparr>isValid = True, reason = None\<rparr>)"
proof -
  have b64: "base64_decode L (base64_encode L bs) = bs" for bs
    using lib(2) by (simp add: base64_ok_def)
  have date: "new_Date L (JStr (toISOString L t)) = Some t" for t
    using lib(3) by (simp add: date_ok_def)
  from generate_Inr(5) [OF gen] obtain sig
    where sig: "ed25519_sign L (hex_decode L (proofHash p)) sk = Inr sig"
      and enc: "verifierSignature p = base64_encode L sig"
    by (auto simp: b64)
  from lib(1) sk obtain sig'
    where "ed25519_sign L (hex_decode L (proofHash p)) sk = Inr sig'"
      and "ed25519_verify L sig' (hex_decode L (proofHash p)) (ed25519_getPublicKey L sk) = Inr True"
    unfolding ed25519_ok_def by blast
  with sig have ver:
    "ed25519_verify L sig (hex_decode L (proofHash p)) (ed25519_getPublicKey L sk) = Inr True"
    by simp
  show ?thesis
    by (simp add: validateVerificationProof_def Let_def generate_Inr(1,2) [OF gen] date b64 enc
        ver expired_iff too_old_iff')
qed

lemma validate_unrelated_key:
  assumes lib: "ed25519_ok L" "base64_ok L"
    and gen: "generateVerificationProof L t1 t2 cd key = Inr p"
    and other: "base64_decode L pk64 \<noteq> ed25519_getPublicKey L (base64_decode L key)"
  shows "\<not> isValid (validateVerificationProof L n1 n2 p pk64)"
proof -
  have b64: "base64_decode L (base64_encode L bs) = bs" for bs
    using lib(2) by (simp add: base64_ok_def)
  from generate_Inr(5) [OF gen] obtain sig
    where sig: "ed25519_sign L (hex_decode L (proofHash p)) (base64_decode L key) = Inr sig"
      and enc: "verifierSignature p = base64_encode L sig"
    by auto
  from lib(1) sig other
  have "ed25519_verify L sig (hex_decode L (proofHash p)) (base64_decode L pk64) \<noteq> Inr True"
    unfolding ed25519_ok_def by blast
  then show ?thesis
    by (auto simp: validateVerificationProof_def Let_def b64 enc split: sum.splits)
qed

lemma validate_other_key:
  assumes lib: "ed25519_ok L" "base64_ok L"
    and gen: "generateVerificationProof L t1 t2 cd (base64_encode L sk) = Inr p"
    and other: "pk \<noteq> ed25519_getPublicKey L sk"
  shows "\<not> isValid (validateVerificationProof L n1 n2 p (base64_encode L pk))"
  using validate_unrelated_key [OF lib gen, of "base64_encode L pk"] lib(2) other
  by (simp add: base64_ok_def)

text \<open>
  C1, as amended. On an Ed25519 whose signatures verify under the signer's public key and
  under no other, for every ceremony input and every 32-byte private key \<open>sk\<close>,
  \<open>generateVerificationProof\<close> returns a proof that \<open>validateVerificationProof\<close> finds
  valid under the public key of \<open>sk\<close> exactly when the clock has not passed \<open>expiresAt\<close>
  (the second clock reading of the generation plus 90 days) and no more than 90 days have
  gone by since the timestamp (the first reading), and finds invalid under any other
  public key at any time.
\<close>

theorem proof_round_trip_amended:
  assumes "ed25519_ok L" and "base64_ok L" and "date_ok L" and "length sk = 32"
  shows "\<exists>p. generateVerificationProof L t1 t2 cd (base64_encode L sk) = Inr p \<and>
           (\<forall>n1 n2. isValid (validateVerificationProof L n1 n2 p
                        (base64_encode L (ed25519_getPublicKey L sk)))
                     \<longleftrightarrow> n1 \<le> t2 + 7776000000 \<and> n2 - t1 \<le> 7776000000) \<and>
           (\<forall>pk n1 n2. pk \<noteq> ed25519_getPublicKey L sk \<longrightarrow>
                     \<not> isValid (validateVerificationProof L n1 n2 p (base64_encode L pk)))"
proof -
  have "length (base64_decode L (base64_encode L sk)) = 32"
    using assms(2,4) by (simp add: base64_ok_def)
  with assms(1) obtain p
    where gen: "generateVerificationProof L t1 t2 cd (base64_encode L sk) = Inr p"
    using generate_succeeds by blast
  show ?thesis
    using gen validate_other_key [OF assms(1,2) gen]
    by (auto simp: validate_generated [OF assms gen])
qed

lemma sample_sk_length: "length sample_sk = 32"
  by (simp add: sample_sk_def)

text \<open>
  A proof made at time 0 is valid under the signer's key after 89 days, invalid after 91
  days, and invalid under another key.
\<close>

theorem proof_round_trip_amended_witness:
  "ed25519_ok sample_lib \<and> base64_ok sample_lib \<and> date_ok sample_lib \<and> length sample_sk = 32 \<and>
   (\<exists>p. generateVerificationProof sample_lib 0 0 sample_ceremony
           (base64_encode sample_lib sample_sk) = Inr p \<and>
        isValid (validateVerificationProof sample_lib 7689600000 7689600000 p
                  (base64_encode sample_lib (ed25519_getPublicKey sample_lib sample_sk))) \<and>
        \<not> isValid (validateVerificationProof sample_lib 7862400000 7862400000 p
                  (base64_encode sample_lib (ed25519_getPublicKey sample_lib sample_sk))) \<and>
        \<not> isValid (validateVerificationProof sample_lib 7689600000 7689600000 p
                  (base64_encode sample_lib sample_sk)))"
proof -
  have other: "sample_sk \<noteq> ed25519_getPublicKey sample_lib sample_sk"
    by (simp add: sample_lib_def sample_getPublicKey_def sample_sk_def)
  from proof_round_trip_amended
    [OF sample_ed25519_ok sample_base64_ok sample_date_ok sample_sk_length, of 0 0 sample_ceremony]
  obtain p where p: "generateVerificationProof sample_lib 0 0 sample_ceremony
           (base64_encode sample_lib sample_sk) = Inr p"
    and v: "\<And>n1 n2. isValid (validateVerificationProof sample_lib n1 n2 p
                        (base64_encode sample_lib (ed25519_getPublicKey sample_lib sample_sk)))
                     \<longleftrightarrow> n1 \<le> 0 + 7776000000 \<and> n2 - 0 \<le> 7776000000"
    and o: "\<And>pk n1 n2. pk \<noteq> ed25519_getPublicKey sample_lib sample_sk \<Longrightarrow>
                     \<not> isValid (validateVerificationProof sample_lib n1 n2 p
                           (base64_encode sample_lib pk))"
    by blast
  show ?thesis
    using p o [OF other] 
    by (auto simp: v sample_ed25519_ok sample_base64_ok sample_date_ok sample_sk_length)
qed

lemma sample_generate:
  "\<exists>p. generateVerificationProof sample_lib t1 t2 sample_ceremony
           (base64_encode sample_lib sample_sk) = Inr p"
  using generate_succeeds [OF sample_ed25519_ok] sample_base64_ok sample_sk_length
  by (simp add: base64_ok_def)

text \<open>
  C1 as stated asks only that validation happen before expiry. A proof whose generation
  read the clock at 0 and then at 1 expires at 90 days plus 1 millisecond; validated at
  that very millisecond under the right key it has not expired, and is rejected as too
  old.
\<close>

theorem proof_too_old_before_expiry_counterexample:
  "map_sum id
     (\<lambda>p. (new_Date sample_lib (JStr (expiresAt p)),
           validateVerificationProof sample_lib 7776000001 7776000001 p
             (base64_encode sample_lib (ed25519_getPublicKey sample_lib sample_sk))))
     (generateVerificationProof sample_lib 0 1 sample_ceremony
        (base64_encode sample_lib sample_sk))
   = Inr (Some 7776000001, \<lparr>isValid = False, reason = Some ''Proof is too old''\<rparr>)"
proof -
  from sample_generate obtain p where
    gen: "generateVerificationProof sample_lib 0 1 sample_ceremony
           (base64_encode sample_lib sample_sk) = Inr p"
    by blast
  have "new_Date sample_lib (JStr (expiresAt p)) = Some 7776000001"
    using sample_date_ok generate_Inr(2) [OF gen] by (simp add: date_ok_def)
  then show ?thesis
    using validate_generated
      [OF sample_ed25519_ok sample_base64_ok sample_date_ok sample_sk_length gen,
       of 7776000001 7776000001]
    by (simp add: gen)
qed

text \<open>
  C7, as amended. The timestamp of a generated proof is the first clock reading and its
  expiry the second one plus 90 days: their difference is 90 days plus the time between
  the two readings, and exactly 90 days if and only if both readings are equal.
\<close>

theorem expiry_offset_amended:
  assumes "date_ok L" and "generateVerificationProof L t1 t2 cd key = Inr p"
  shows "\<exists>ts ex. new_Date L (JStr (timestamp p)) = Some ts \<and>
                 new_Date L (JStr (expiresAt p)) = Some ex \<and>
                 ex - ts = 90 * 24 * 60 * 60 * 1000 + (t2 - t1) \<and>
                 (ex - ts = 90 * 24 * 60 * 60 * 1000 \<longleftrightarrow> t1 = t2)"
  using assms generate_Inr(1,2) [OF assms(2)]
  by (auto simp: date_ok_def)

text \<open>Both readings at millisecond 5: the proof expires at 90 days and 5 milliseconds.\<close>

theorem expiry_offset_amended_witness:
  "date_ok sample_lib \<and>
   (\<exists>p. generateVerificationProof sample_lib 5 5 sample_ceremony
          (base64_encode sample_lib sample_sk) = Inr p \<and>
        new_Date sample_lib (JStr (timestamp p)) = Some 5 \<and>
        new_Date sample_lib (JStr (expiresAt p)) = Some 7776000005)"
proof -
  from sample_generate obtain p where
    gen: "generateVerificationProof sample_lib 5 5 sample_ceremony
           (base64_encode sample_lib sample_sk) = Inr p"
    by blast
  from expiry_offset_amended [OF sample_date_ok gen]
  have "new_Date sample_lib (JStr (timestamp p)) = Some 5 \<and>
        new_Date sample_lib (JStr (expiresAt p)) = Some 7776000005"
    using sample_date_ok generate_Inr(1,2) [OF gen] by (simp add: date_ok_def)
  with gen show ?thesis by (simp add: sample_date_ok)
qed

text \<open>
  C7 as stated has the difference be 90 days whenever the readings occur. With the
  readings 0 and 1 it is 90 days and 1 millisecond.
\<close>

theorem expiry_offset_counterexample:
  "map_sum id
     (\<lambda>p. (new_Date sample_lib (JStr (timestamp p)), new_Date sample_lib (JStr (expiresAt p))))
     (generateVerificationProof sample_lib 0 1 sample_ceremony
        (base64_encode sample_lib sample_sk))
   = Inr (Some 0, Some 7776000001)"
proof -
  from sample_generate obtain p where
    gen: "generateVerificationProof sample_lib 0 1 sample_ceremony
           (base64_encode sample_lib sample_sk) = Inr p"
    by blast
  show ?thesis
    using sample_date_ok generate_Inr(1,2) [OF gen] by (simp add: gen date_ok_def)
qed


section \<open>Tokens\<close>

lemma split_dot_decomp:
  "split_dot s =
     takeWhile (\<lambda>c. c \<noteq> CHR ''.'') s #
     (case dropWhile (\<lambda>c. c \<noteq> CHR ''.'') s of [] \<Rightarrow> [] | d # r \<Rightarrow> split_dot r)"
  by (induction s) (auto split: list.splits)

lemma split_dot_nonempty: "split_dot s \<noteq> []"
  by (subst split_dot_decomp) simp

lemma element_0_split: "element (split_dot s) 0 = Some (first_segment s)"
  by (subst split_dot_decomp) (simp add: element_def first_segment_def)

lemma no_dot_iff: "dropWhile (\<lambda>c. c \<noteq> CHR ''.'') s = [] \<longleftrightarrow> CHR ''.'' \<notin> set s"
  by (induction s) auto

lemma element_1_split: "element (split_dot s) (Suc 0) = second_segment s"
proof (cases "dropWhile (\<lambda>c. c \<noteq> CHR ''.'') s")
  case Nil
  then have "CHR ''.'' \<notin> set s"
    using no_dot_iff [of s] by blast
  with Nil show ?thesis
    by (subst split_dot_decomp)
       (simp add: element_def second_segment_def del: dropWhile_eq_Nil_conv)
next
  case (Cons d r)
  then have "dropWhile (\<lambda>c. c \<noteq> CHR ''.'') s \<noteq> []"
    by simp
  then have dot: "CHR ''.'' \<in> set s"
    using no_dot_iff [of s] by blast
  have "element (split_dot s) (Suc 0) = element (split_dot r) 0"
    by (subst split_dot_decomp) (simp add: Cons element_def split_dot_nonempty)
  also have "\<dots> = Some (first_segment r)"
    by (rule element_0_split)
  finally show ?thesis
    by (simp add: second_segment_def dot Cons first_segment_def)
qed

lemma token_invalid_inject [simp]: "token_invalid a = token_invalid b \<longleftrightarrow> a = b"
  by (simp add: token_invalid_def)

lemma decode_token_payload_not_format:
  "decode_token_payload L now ps = Inr r \<Longrightarrow> r \<noteq> token_invalid ''Invalid token format''"
  by (auto simp: decode_token_payload_def token_invalid_def
      split: sum.splits if_splits prod.splits)

text \<open>
  C8, as amended. \<open>validateProofToken\<close> returns the malformed-token result exactly when the
  first segment of the token is empty or the second segment is missing or empty. What
  follows a second \<open>.\<close> is never looked at, so a token with more than one \<open>.\<close> is
  malformed in those cases only and is otherwise judged on its first two segments.
\<close>

theorem malformed_token_iff:
  "validateProofToken L now token secretKey = token_invalid ''Invalid token format''
     \<longleftrightarrow> first_segment token = [] \<or> falsy (second_segment token)"
proof (cases "first_segment token = [] \<or> falsy (second_segment token)")
  case True
  then show ?thesis
    by (auto simp: validateProofToken_def Let_def element_0_split element_1_split falsy_def)
next
  case False
  then obtain sg where sg: "second_segment token = Some sg" "sg \<noteq> []"
    and fs: "first_segment token \<noteq> []"
    by (auto simp: falsy_def split: option.splits)
  show ?thesis
    using False decode_token_payload_not_format [of L now "first_segment token"]
    by (auto simp: validateProofToken_def Let_def element_0_split element_1_split falsy_def sg fs
        split: sum.splits)
qed


lemma sample_base64_chars: "set (base64_encode sample_lib bs) \<subseteq> {CHR ''A'', CHR ''=''}"
  by (simp add: sample_lib_def unary_encode_chars)

text \<open>
  C8 as stated has every token with more than one \<open>.\<close> be malformed. The token of the
  repository's own test, \<open>invalid.token.format\<close>, has a non-empty first and second
  segment: its signature is compared, and the result is the invalid-signature one.
\<close>

theorem extra_segment_counterexample:
  "validateProofToken sample_lib 0 ''invalid.token.format'' ''secret''
     = token_invalid ''Invalid token signature''"
proof -
  have "''token'' \<noteq> base64_encode sample_lib bs" for bs
  proof
    assume "''token'' = base64_encode sample_lib bs"
    then have "CHR ''t'' \<in> set (base64_encode sample_lib bs)"
      by (metis list.set_intros(1))
    with sample_base64_chars [of bs] show False by auto
  qed
  then show ?thesis
    by (simp add: validateProofToken_def Let_def element_def falsy_def)
qed

lemma first_segment_append:
  "CHR ''.'' \<notin> set a \<Longrightarrow> first_segment (a @ CHR ''.'' # b) = a"
  by (simp add: first_segment_def takeWhile_append)

lemma second_segment_append:
  "CHR ''.'' \<notin> set a \<Longrightarrow> CHR ''.'' \<notin> set b \<Longrightarrow> second_segment (a @ CHR ''.'' # b) = Some b"
proof -
  assume a: "CHR ''.'' \<notin> set a" and b: "CHR ''.'' \<notin> set b"
  have "dropWhile (\<lambda>c. c \<noteq> CHR ''.'') (a @ CHR ''.'' # b) = CHR ''.'' # b"
    using a by (subst dropWhile_append2) auto
  moreover have "takeWhile (\<lambda>c. c \<noteq> CHR ''.'') b = b"
    using b by (subst takeWhile_eq_all_conv) auto
  ultimately show ?thesis
    by (simp add: second_segment_def)
qed

lemma encode_nonempty:
  assumes "base64_ok L" and "bs \<noteq> []"
  shows "base64_encode L bs \<noteq> []"
proof
  assume "base64_encode L bs = []"
  then have "base64_decode L (base64_encode L bs) = base64_decode L []" by simp
  with assms show False by (simp add: base64_ok_def)
qed

lemma payload_segment_nonempty:
  assumes "base64_ok L" and "utf8_ok L" and "json_ok L"
  shows "payload_segment L p \<noteq> []"
proof -
  have "JSON_stringify L (token_payload p) \<noteq> []"
  proof
    assume e: "JSON_stringify L (token_payload p) = []"
    have "JSON_parse L (JSON_stringify L (token_payload p)) = Inr (token_payload p)"
      using assms(3) by (simp add: json_ok_def token_payload_def is_JStr_def)
    with e assms(3) show False by (auto simp: json_ok_def)
  qed
  moreover have "utf8_encode L s \<noteq> []" if "s \<noteq> []" for s
  proof
    assume "utf8_encode L s = []"
    then have "utf8_decode L (utf8_encode L s) = utf8_decode L []" by simp
    with assms(2) that show False by (simp add: utf8_ok_def)
  qed
  ultimately show ?thesis
    unfolding payload_segment_def by (intro encode_nonempty [OF assms(1)]) blast
qed

lemma hmac_nonempty: "sha256_ok L \<Longrightarrow> createHmac_sha256 L key d \<noteq> []"
proof -
  assume "sha256_ok L"
  then have "length (createHmac_sha256 L key d) = 32"
    by (simp add: createHmac_sha256_def hmac_sha256_def Let_def sha256_ok_def)
  then show ?thesis by auto
qed

lemma decode_payload_segment:
  assumes "base64_ok L" and "utf8_ok L" and "json_ok L"
  shows "decode_token_payload L now (payload_segment L p) =
           (if date_gt (Some now) (new_Date L (JStr (expiresAt p)))
            then Inr (token_invalid ''Token has expired'')
            else Inr \<lparr>isValid = True, reason = None, proof_data = Some (token_proof p)\<rparr>)"
proof -
  have "JSON_parse L (utf8_decode L (base64_decode L (payload_segment L p))) = Inr (token_payload p)"
    using assms by (simp add: payload_segment_def base64_ok_def utf8_ok_def json_ok_def
        token_payload_def is_JStr_def)
  then show ?thesis
    by (simp add: decode_token_payload_def token_payload_def get_prop_def token_proof_def)
qed

lemma createProofToken_eq:
  "createProofToken L p secret =
     payload_segment L p @ CHR ''.'' # base64_encode L (createHmac_sha256 L secret (payload_segment L p))"
  by (simp add: createProofToken_def payload_segment_def Let_def)

lemma validate_created_token:
  assumes lib: "base64_ok L" "utf8_ok L" "json_ok L" "sha256_ok L"
  shows "validateProofToken L now (createProofToken L p secret) secret2 =
           (if createHmac_sha256 L secret2 (payload_segment L p)
                 \<noteq> createHmac_sha256 L secret (payload_segment L p)
            then token_invalid ''Invalid token signature''
            else if date_gt (Some now) (new_Date L (JStr (expiresAt p)))
            then token_invalid ''Token has expired''
            else \<lparr>isValid = True, reason = None, proof_data = Some (token_proof p)\<rparr>)"
proof -
  let ?ps = "payload_segment L p"
  let ?sg = "base64_encode L (createHmac_sha256 L secret ?ps)"
  have nodot: "CHR ''.'' \<notin> set ?ps" "CHR ''.'' \<notin> set ?sg"
    using lib(1) by (simp_all add: base64_ok_def payload_segment_def)
  have ne: "?ps \<noteq> []" "?sg \<noteq> []"
    using payload_segment_nonempty [OF lib(1,2,3)] encode_nonempty [OF lib(1) hmac_nonempty [OF lib(4)]]
    by simp_all
  have inj: "base64_encode L a = base64_encode L b \<longleftrightarrow> a = b" for a b
    using lib(1) by (metis base64_ok_def)
  show ?thesis
    by (simp add: validateProofToken_def Let_def createProofToken_eq element_0_split
        element_1_split first_segment_append second_segment_append nodot ne falsy_def inj
        decode_payload_segment [OF lib(1,2,3)])
qed

text \<open>
  C6, as amended. For every proof whose \<open>expiresAt\<close> is a date not yet passed and every
  secret, validating the token made with that secret, under the same secret, is valid and
  gives back the proof's \<open>userId\<close>, \<open>nodeId\<close>, \<open>timestamp\<close>, \<open>proofHash\<close> and \<open>expiresAt\<close>
  with an empty signature; under a secret whose HMAC of the payload segment differs from the
  first one's, it fails with the invalid-signature result.
\<close>

theorem token_round_trip_amended:
  assumes "base64_ok L" and "utf8_ok L" and "json_ok L" and "sha256_ok L"
    and "new_Date L (JStr (expiresAt p)) = Some e" and "now \<le> e"
  shows "validateProofToken L now (createProofToken L p secret) secret
           = \<lparr>isValid = True, reason = None, proof_data = Some (token_proof p)\<rparr> \<and>
         (\<forall>secret2. createHmac_sha256 L secret2 (payload_segment L p)
                       \<noteq> createHmac_sha256 L secret (payload_segment L p) \<longrightarrow>
            validateProofToken L now (createProofToken L p secret) secret2
              = token_invalid ''Invalid token signature'')"
  using assms(5,6)
  by (simp add: validate_created_token [OF assms(1-4)] date_gt_def js_gt_def)

lemma sample_selectors:
  "sha256 sample_lib = (\<lambda>x. take 32 (x @ replicate 32 0))"
  "utf8_encode sample_lib = map (\<lambda>c. of_nat (of_char c))"
  by (simp_all add: sample_lib_def)

lemma sample_proof_expiry:
  "new_Date sample_lib (JStr (expiresAt sample_proof)) = Some 7776000000"
  using sample_date_ok by (simp add: date_ok_def sample_proof_def)

lemma sample_hmac_differs:
  "createHmac_sha256 sample_lib ''q'' d \<noteq> createHmac_sha256 sample_lib ''k'' d"
  by (simp add: createHmac_sha256_def hmac_sha256_def hmac_block_key_def Let_def
      sample_selectors)

text \<open>A token made under the secret \<open>k\<close> is valid under \<open>k\<close> and has an invalid signature under \<open>q\<close>.\<close>

theorem token_round_trip_amended_witness:
  "base64_ok sample_lib \<and> utf8_ok sample_lib \<and> json_ok sample_lib \<and> sha256_ok sample_lib \<and>
   new_Date sample_lib (JStr (expiresAt sample_proof)) = Some 7776000000 \<and>
   (0::int) \<le> 7776000000 \<and>
   validateProofToken sample_lib 0 (createProofToken sample_lib sample_proof ''k'') ''k''
     = \<lparr>isValid = True, reason = None, proof_data = Some (token_proof sample_proof)\<rparr> \<and>
   validateProofToken sample_lib 0 (createProofToken sample_lib sample_proof ''k'') ''q''
     = token_invalid ''Invalid token signature''"
  using token_round_trip_amended
    [OF sample_base64_ok sample_utf8_ok sample_json_ok sample_sha256_ok sample_proof_expiry,
     of 0 "''k''"]
    sample_hmac_differs
  by (simp add: sample_base64_ok sample_utf8_ok sample_json_ok sample_sha256_ok
      sample_proof_expiry)

text \<open>
  HMAC pads a key shorter than a block with zero bytes, so a key and the same key followed
  by a zero byte are one key.
\<close>

lemma hmac_block_key_zero:
  assumes "length key < 64"
  shows "hmac_block_key L (key @ [0]) = hmac_block_key L key"
proof -
  from assms have "64 - length key = Suc (63 - length key)" by simp
  then have "replicate (64 - length key) (0::8 word) = 0 # replicate (63 - length key) 0"
    by simp
  with assms show ?thesis
    by (simp add: hmac_block_key_def Let_def)
qed

lemma hmac_sha256_zero:
  "length key < 64 \<Longrightarrow> hmac_sha256 L (key @ [0]) msg = hmac_sha256 L key msg"
  by (simp add: hmac_sha256_def hmac_block_key_zero)

text \<open>
  C6 as stated has every secret other than the one that made the token fail with an invalid
  signature. The secret \<open>k\<close> followed by the character of code 0 is another secret, and
  the token made under \<open>k\<close> is valid under it.
\<close>

theorem padded_secret_counterexample:
  "[CHR ''k'', CHR 0x00] \<noteq> ''k'' \<and>
   validateProofToken sample_lib 0 (createProofToken sample_lib sample_proof ''k'')
     [CHR ''k'', CHR 0x00]
     = \<lparr>isValid = True, reason = None, proof_data = Some (token_proof sample_proof)\<rparr>"
proof -
  have e: "utf8_encode sample_lib [CHR ''k'', CHR 0x00] = utf8_encode sample_lib ''k'' @ [0]"
    by (simp add: sample_selectors)
  have l: "length (utf8_encode sample_lib ''k'') < 64"
    by (simp add: sample_selectors)
  have "createHmac_sha256 sample_lib [CHR ''k'', CHR 0x00] d
          = createHmac_sha256 sample_lib ''k'' d" for d
    unfolding createHmac_sha256_def e by (rule hmac_sha256_zero [OF l])
  then show ?thesis
    using sample_proof_expiry
    by (simp add: validate_created_token
        [OF sample_base64_ok sample_utf8_ok sample_json_ok sample_sha256_ok]
        date_gt_def js_gt_def)
qed


section \<open>Ceremony and renewal on the store\<close>

lemmas trx_defs = transaction_def trx_view_def trx_write_def trx_commit_def trx_rollback_def
  awaited_def

lemma ceremony_try_cases:
  assumes "pending st = Some w"
  shows "(\<exists>e st'. ceremony_try L E req st = Inl (e, st') \<and> committed st' = committed st) \<or>
         (\<exists>msg uid. ceremony_try L E req st = Inr (ceremony_failed msg uid, trx_rollback st)) \<or>
         (\<exists>node p. select_active_node (req_nodeId req) w = Some node \<and>
            generateVerificationProof L (clock E 1) (clock E 2) (ceremony_data L E req)
              (public_key node) = Inr p \<and>
            (\<forall>k. k \<le> 4 \<longrightarrow> store_error E k = None) \<and>
            ceremony_try L E req st =
              Inr (ceremony_succeeded L (randomUUID E) p,
                   \<lparr>committed =
                      insert_audit_log (ceremony_audit_log E req)
                        (increment_verification_count (req_nodeId req)
                          (insert_verification_event
                            (event_of_proof L (randomUUID E) (req_nodeId req) p (metadata p)) w)),
                    pending = None\<rparr>))"
proof -
  have le4: "(\<forall>k. k \<le> 4 \<longrightarrow> P k) \<longleftrightarrow> P 0 \<and> P 1 \<and> P 2 \<and> P 3 \<and> P (4::nat)" for P
  proof -
    have "k \<le> 4 \<longleftrightarrow> k = 0 \<or> k = 1 \<or> k = 2 \<or> k = 3 \<or> k = 4" for k :: nat
      by auto
    then show ?thesis by auto
  qed
  show ?thesis
    using assms
    by (auto simp: ceremony_try_def trx_defs Let_def findUserByDocumentHash_def le4
        split: option.splits sum.splits)
qed

lemma renewal_try_cases:
  assumes "pending st = Some w"
  shows "(\<exists>e st'. renewal_try L E uid nid oid st = Inl (e, st') \<and> committed st' = committed st) \<or>
         (\<exists>msg u st'. renewal_try L E uid nid oid st = Inr (ceremony_failed msg u, st') \<and>
            committed st' = committed st \<and> pending st' = None) \<or>
         (\<exists>old node p. select_active_event uid w = Some old \<and>
            select_active_node nid (invalidate_events uid w) = Some node \<and>
            generateVerificationProof L (clock E 1) (clock E 2) (renewal_data L E uid nid oid)
              (public_key node) = Inr p \<and>
            renewal_try L E uid nid oid st =
              Inr (ceremony_succeeded L uid p,
                   \<lparr>committed =
                      insert_verification_event
                        (event_of_proof L uid nid p (renewal_metadata p))
                        (invalidate_events uid w),
                    pending = None\<rparr>))"
  using assms
  by (auto simp: renewal_try_def trx_defs Let_def split: option.splits sum.splits)

lemma ceremony_result_simps [simp]:
  "success (ceremony_failed msg u) = False"
  "error (ceremony_failed msg u) = Some msg"
  "verificationProof (ceremony_failed msg u) = None"
  "success (ceremony_succeeded L u' p) = True"
  by (simp_all add: ceremony_failed_def ceremony_succeeded_def)

lemma upto_four: "(\<forall>k. k \<le> 4 \<longrightarrow> P k) \<longleftrightarrow> P 0 \<and> P 1 \<and> P 2 \<and> P 3 \<and> P (4::nat)"
proof -
  have "k \<le> 4 \<longleftrightarrow> k = 0 \<or> k = 1 \<or> k = 2 \<or> k = 3 \<or> k = 4" for k :: nat
    by auto
  then show ?thesis by auto
qed

lemma ceremony_runs:
  assumes ok: "\<forall>k. k \<le> 4 \<longrightarrow> store_error E k = None"
    and node: "select_active_node (req_nodeId req) (committed st) = Some node"
    and gen: "generateVerificationProof L (clock E 1) (clock E 2) (ceremony_data L E req)
                (public_key node) = Inr p"
  shows "fst (conductVerificationCeremony L E req st) = ceremony_succeeded L (randomUUID E) p"
  using ok [unfolded upto_four] node gen
  by (simp add: conductVerificationCeremony_def ceremony_try_def awaited_def
      Let_def transaction_def trx_view_def findUserByDocumentHash_def)

lemma ceremony_rejected_at_increment:
  assumes "store_error E 0 = None" and "store_error E 1 = None" and "store_error E 2 = Some e"
    and node: "select_active_node (req_nodeId req) (committed st) = Some node"
    and gen: "generateVerificationProof L (clock E 1) (clock E 2) (ceremony_data L E req)
                (public_key node) = Inr p"
  shows "fst (conductVerificationCeremony L E req st)
           = ceremony_failed (''Ceremony failed: '' @ e) None"
  using assms
  by (simp add: conductVerificationCeremony_def ceremony_try_def awaited_def
      Let_def transaction_def trx_view_def findUserByDocumentHash_def)

text \<open>
  C5. \<open>conductVerificationCeremony\<close> leaves no transaction open. It reports success exactly
  when the store rejects none of its five statements (the select of the node, the three
  writes, the commit), the node exists and is active, and signing does not throw. Then the
  committed store is the one before the call with the verification event inserted, the
  node's counter incremented and the audit entry inserted, all three. As soon as the store
  rejects one of the statements the call does not succeed and nothing is committed. In
  every case without success, whichever statement was rejected, whichever gate turned the
  request down and whatever was thrown, the committed store is the one before the call and
  the result carries an error and no proof.
\<close>

theorem ceremony_all_or_nothing:
  assumes "conductVerificationCeremony L E req st = (res, st')"
  shows "pending st' = None \<and>
         (success res \<longleftrightarrow>
            (\<forall>k. k \<le> 4 \<longrightarrow> store_error E k = None) \<and>
            (\<exists>node p.
               select_active_node (req_nodeId req) (committed st) = Some node \<and>
               generateVerificationProof L (clock E 1) (clock E 2) (ceremony_data L E req)
                 (public_key node) = Inr p)) \<and>
         (\<forall>k e. k \<le> 4 \<and> store_error E k = Some e \<longrightarrow>
            \<not> success res \<and> committed st' = committed st) \<and>
         (if success res
          then (\<exists>node p.
                  select_active_node (req_nodeId req) (committed st) = Some node \<and>
                  generateVerificationProof L (clock E 1) (clock E 2) (ceremony_data L E req)
                    (public_key node) = Inr p \<and>
                  res = ceremony_succeeded L (randomUUID E) p \<and>
                  committed st' =
                    insert_audit_log (ceremony_audit_log E req)
                      (increment_verification_count (req_nodeId req)
                        (insert_verification_event
                          (event_of_proof L (randomUUID E) (req_nodeId req) p (metadata p))
                          (committed st))))
          else committed st' = committed st \<and> error res \<noteq> None \<and>
               verificationProof res = None)"
proof -
  have p: "pending (transaction st) = Some (committed st)"
    and c: "committed (transaction st) = committed st"
    by (simp_all add: transaction_def)
  have branches: "pending st' = None \<and>
         (if success res
          then (\<forall>k. k \<le> 4 \<longrightarrow> store_error E k = None) \<and>
               (\<exists>node p.
                  select_active_node (req_nodeId req) (committed st) = Some node \<and>
                  generateVerificationProof L (clock E 1) (clock E 2) (ceremony_data L E req)
                    (public_key node) = Inr p \<and>
                  res = ceremony_succeeded L (randomUUID E) p \<and>
                  committed st' =
                    insert_audit_log (ceremony_audit_log E req)
                      (increment_verification_count (req_nodeId req)
                        (insert_verification_event
                          (event_of_proof L (randomUUID E) (req_nodeId req) p (metadata p))
                          (committed st))))
          else committed st' = committed st \<and> error res \<noteq> None \<and>
               verificationProof res = None)"
    using ceremony_try_cases [OF p, of L E req] assms
    by (auto simp: conductVerificationCeremony_def Let_def trx_rollback_def c)
  have runs: "success res"
    if "\<forall>k. k \<le> 4 \<longrightarrow> store_error E k = None"
      and "select_active_node (req_nodeId req) (committed st) = Some node"
      and "generateVerificationProof L (clock E 1) (clock E 2) (ceremony_data L E req)
             (public_key node) = Inr q"
    for node q
    using ceremony_runs [OF that] assms by simp
  show ?thesis
  proof (cases "success res")
    case True
    with branches show ?thesis by fastforce
  next
    case False
    with branches runs show ?thesis by fastforce
  qed
qed

lemma filter_invalidated:
  "filter (\<lambda>e. user_id e = uid \<and> is_valid e)
     (map (\<lambda>e. if user_id e = uid \<and> is_valid e then e\<lparr>is_valid := False\<rparr> else e) xs) = []"
  by (induction xs) simp_all

lemma active_events_invalidated: "active_events uid (invalidate_events uid d) = []"
  by (simp add: active_events_def invalidate_events_def filter_invalidated
      del: filter_empty_conv filter_False)

lemma select_node_invalidated:
  "select_active_node nid (invalidate_events uid d) = select_active_node nid d"
  by (simp add: select_active_node_def invalidate_events_def)

lemma active_events_renewed:
  "active_events uid
     (insert_verification_event (event_of_proof L uid nid p m) (invalidate_events uid d))
   = [event_of_proof L uid nid p m]"
  using active_events_invalidated [of uid d]
  by (simp add: active_events_def insert_verification_event_def event_of_proof_def)

text \<open>
  C3. When \<open>renewVerification\<close> reports success, the user had an active event, the
  committed store is the one before the call with every active event of the user
  invalidated and the new event appended, and the user's active events are exactly that
  new event. When it does not, the committed store is the one before the call. Both
  writes reach the committed store in the one commit or not at all, and no transaction
  stays open.
\<close>

theorem renewal_one_active_event:
  assumes "renewVerification L E uid nid oid st = (res, st')"
  shows "pending st' = None \<and>
         (if success res
          then (\<exists>old node p.
                  select_active_event uid (committed st) = Some old \<and>
                  select_active_node nid (committed st) = Some node \<and>
                  generateVerificationProof L (clock E 1) (clock E 2)
                    (renewal_data L E uid nid oid) (public_key node) = Inr p \<and>
                  res = ceremony_succeeded L uid p \<and>
                  committed st' =
                    insert_verification_event
                      (event_of_proof L uid nid p (renewal_metadata p))
                      (invalidate_events uid (committed st)) \<and>
                  active_events uid (committed st') =
                    [event_of_proof L uid nid p (renewal_metadata p)])
          else committed st' = committed st)"
proof -
  have p: "pending (transaction st) = Some (committed st)"
    and c: "committed (transaction st) = committed st"
    by (simp_all add: transaction_def)
  from renewal_try_cases [OF p, of L E uid nid oid] show ?thesis
    using assms
    by (auto simp: renewVerification_def Let_def trx_rollback_def c select_node_invalidated
        active_events_renewed)
qed

lemma no_store_error: "(\<forall>k. store_error E k = None) \<Longrightarrow> awaited E k st rest = rest"
  by (simp add: awaited_def)

lemma ceremony_succeeds:
  assumes "ed25519_ok L"
    and node: "select_active_node (req_nodeId req) (committed st) = Some node"
    and key: "length (base64_decode L (public_key node)) = 32"
    and ok: "\<forall>k. store_error E k = None"
  shows "\<exists>p. generateVerificationProof L (clock E 1) (clock E 2) (ceremony_data L E req)
                (public_key node) = Inr p \<and>
             fst (conductVerificationCeremony L E req st) = ceremony_succeeded L (randomUUID E) p"
proof -
  from generate_succeeds [OF assms(1) key] obtain p where
    gen: "generateVerificationProof L (clock E 1) (clock E 2) (ceremony_data L E req)
            (public_key node) = Inr p"
    by blast
  have "fst (conductVerificationCeremony L E req st) = ceremony_succeeded L (randomUUID E) p"
    using node gen
    by (simp add: conductVerificationCeremony_def ceremony_try_def no_store_error [OF ok]
        Let_def transaction_def trx_view_def findUserByDocumentHash_def)
  with gen show ?thesis by blast
qed

lemma renewal_succeeds:
  assumes "ed25519_ok L"
    and old: "select_active_event uid (committed st) = Some old"
    and node: "select_active_node nid (committed st) = Some node"
    and key: "length (base64_decode L (public_key node)) = 32"
    and ok: "\<forall>k. store_error E k = None"
  shows "success (fst (renewVerification L E uid nid oid st))"
proof -
  from generate_succeeds [OF assms(1) key] obtain p where
    gen: "generateVerificationProof L (clock E 1) (clock E 2) (renewal_data L E uid nid oid)
            (public_key node) = Inr p"
    by blast
  show ?thesis
    using old node gen
    by (simp add: renewVerification_def renewal_try_def no_store_error [OF ok]
        Let_def transaction_def trx_view_def trx_write_def select_node_invalidated)
qed

lemma sample_select_node:
  "select_active_node ''N'' (committed sample_store) = Some sample_node"
  by (simp add: select_active_node_def sample_store_def sample_node_def first_row_def)

lemma sample_select_event:
  "select_active_event ''U'' (committed sample_store) = Some sample_event"
  by (simp add: select_active_event_def sample_store_def sample_event_def first_row_def
      orderBy_desc_def)

lemma sample_node_key: "base64_decode sample_lib (public_key sample_node) = replicate 32 2"
  using sample_base64_ok
  by (simp add: base64_ok_def sample_node_def sample_lib_def sample_getPublicKey_def
      sample_sk_def)

lemma sample_env_ok: "\<forall>k. store_error sample_env k = None"
  by (simp add: sample_env_def)

text \<open>
  Renewing the verification of \<open>U\<close> at \<open>N\<close> succeeds: two events are stored, one of them
  active.
\<close>

theorem renewal_one_active_event_witness:
  "success (fst (renewVerification sample_lib sample_env ''U'' ''N'' ''op'' sample_store)) \<and>
   pending (snd (renewVerification sample_lib sample_env ''U'' ''N'' ''op'' sample_store)) = None \<and>
   length (active_events ''U''
     (committed (snd (renewVerification sample_lib sample_env ''U'' ''N'' ''op'' sample_store)))) = 1 \<and>
   length (verification_events
     (committed (snd (renewVerification sample_lib sample_env ''U'' ''N'' ''op'' sample_store)))) = 2"
proof -
  let ?r = "renewVerification sample_lib sample_env ''U'' ''N'' ''op'' sample_store"
  have s: "success (fst ?r)"
    using renewal_succeeds [OF sample_ed25519_ok sample_select_event sample_select_node _
        sample_env_ok]
    by (simp add: sample_node_key)
  have "?r = (fst ?r, snd ?r)" by simp
  from renewal_one_active_event [OF this] s show ?thesis
    by (auto simp: insert_verification_event_def invalidate_events_def sample_store_def)
qed

text \<open>
  A ceremony at \<open>N\<close> succeeds: a second event is stored, the counter of \<open>N\<close> is 1 and the
  audit log has its entry. The same ceremony with the increment of the counter rejected,
  after the event was inserted on the transaction: it fails with the store's error, and
  the store is as it was.
\<close>

theorem ceremony_all_or_nothing_witness:
  "success (fst (conductVerificationCeremony sample_lib sample_env sample_request sample_store)) \<and>
   pending (snd (conductVerificationCeremony sample_lib sample_env sample_request sample_store))
     = None \<and>
   length (verification_events (committed
     (snd (conductVerificationCeremony sample_lib sample_env sample_request sample_store)))) = 2 \<and>
   map verification_count (verification_nodes (committed
     (snd (conductVerificationCeremony sample_lib sample_env sample_request sample_store)))) = [1] \<and>
   audit_logs (committed
     (snd (conductVerificationCeremony sample_lib sample_env sample_request sample_store)))
     = [ceremony_audit_log sample_env sample_request] \<and>
   store_error sample_env_rejecting 2 = Some ''connection lost'' \<and>
   fst (conductVerificationCeremony sample_lib sample_env_rejecting sample_request sample_store)
     = ceremony_failed ''Ceremony failed: connection lost'' None \<and>
   snd (conductVerificationCeremony sample_lib sample_env_rejecting sample_request sample_store)
     = sample_store"
proof -
  let ?r = "conductVerificationCeremony sample_lib sample_env sample_request sample_store"
  let ?q = "conductVerificationCeremony sample_lib sample_env_rejecting sample_request
              sample_store"
  have n: "select_active_node (req_nodeId sample_request) (committed sample_store)
             = Some sample_node"
    using sample_select_node by (simp add: sample_request_def)
  have s: "success (fst ?r)"
    using ceremony_succeeds [OF sample_ed25519_ok n _ sample_env_ok]
    by (auto simp: sample_node_key)
  have "?r = (fst ?r, snd ?r)" by simp
  from ceremony_all_or_nothing [OF this] s
  have accepted:
    "pending (snd ?r) = None \<and>
     length (verification_events (committed (snd ?r))) = 2 \<and>
     map verification_count (verification_nodes (committed (snd ?r))) = [1] \<and>
     audit_logs (committed (snd ?r)) = [ceremony_audit_log sample_env sample_request]"
    by (auto simp: insert_verification_event_def increment_verification_count_def
        insert_audit_log_def sample_store_def sample_request_def sample_node_def)
  have e: "store_error sample_env_rejecting 0 = None" "store_error sample_env_rejecting 1 = None"
    "store_error sample_env_rejecting 2 = Some ''connection lost''"
    by (simp_all add: sample_env_rejecting_def)
  have "length (base64_decode sample_lib (public_key sample_node)) = 32"
    by (simp add: sample_node_key)
  from generate_succeeds [OF sample_ed25519_ok this] obtain p where
    "generateVerificationProof sample_lib (clock sample_env_rejecting 1)
       (clock sample_env_rejecting 2) (ceremony_data sample_lib sample_env_rejecting sample_request)
       (public_key sample_node) = Inr p"
    by blast
  from ceremony_rejected_at_increment [OF e n this]
  have f: "fst ?q = ceremony_failed ''Ceremony failed: connection lost'' None"
    by simp
  have le: "(2::nat) \<le> 4" by simp
  have "?q = (fst ?q, snd ?q)" by simp
  from ceremony_all_or_nothing [OF this]
  have "pending (snd ?q) = None"
    and "\<forall>k e. k \<le> 4 \<and> store_error sample_env_rejecting k = Some e \<longrightarrow>
           \<not> success (fst ?q) \<and> committed (snd ?q) = committed sample_store"
    by blast+
  with le e(3) have "pending (snd ?q) = None \<and> committed (snd ?q) = committed sample_store"
    by blast
  then have "snd ?q = sample_store"
    by (simp add: sample_store_def store.equality)
  with s accepted e(3) f show ?thesis by simp
qed

text \<open>
  C2 does not hold of the code. The orchestrator signs with the node's \<open>public_key\<close> in
  the place of the private key. Unless the Ed25519 public key of those 32 bytes is those
  same bytes, the proof of a ceremony that succeeds is valid under the node's public key
  at no time: not 89 days after the ceremony either.
\<close>

theorem ceremony_proof_rejected_under_node_key:
  assumes "ed25519_ok L" and "base64_ok L"
    and node: "select_active_node (req_nodeId req) (committed st) = Some node"
    and key: "length (base64_decode L (public_key node)) = 32"
    and pub: "ed25519_getPublicKey L (base64_decode L (public_key node))
                \<noteq> base64_decode L (public_key node)"
    and ok: "\<forall>k. store_error E k = None"
  shows "\<exists>p. generateVerificationProof L (clock E 1) (clock E 2) (ceremony_data L E req)
                (public_key node) = Inr p \<and>
             fst (conductVerificationCeremony L E req st)
               = ceremony_succeeded L (randomUUID E) p \<and>
             (\<forall>n1 n2. \<not> isValid (validateVerificationProof L n1 n2 p (public_key node)))"
proof -
  from ceremony_succeeds [OF assms(1) node key ok] obtain p where
    gen: "generateVerificationProof L (clock E 1) (clock E 2) (ceremony_data L E req)
            (public_key node) = Inr p"
    and res: "fst (conductVerificationCeremony L E req st) = ceremony_succeeded L (randomUUID E) p"
    by blast
  from validate_unrelated_key [OF assms(1,2) gen] pub
  have "\<not> isValid (validateVerificationProof L n1 n2 p (public_key node))" for n1 n2
    by metis
  with gen res show ?thesis by blast
qed

text \<open>The ceremony at \<open>N\<close> at time 0: its proof is invalid under the key of \<open>N\<close> at 89 days.\<close>

theorem ceremony_proof_rejected_under_node_key_witness:
  "ed25519_ok sample_lib \<and> base64_ok sample_lib \<and>
   select_active_node (req_nodeId sample_request) (committed sample_store) = Some sample_node \<and>
   length (base64_decode sample_lib (public_key sample_node)) = 32 \<and>
   ed25519_getPublicKey sample_lib (base64_decode sample_lib (public_key sample_node))
     \<noteq> base64_decode sample_lib (public_key sample_node) \<and>
   (\<forall>k. store_error sample_env k = None) \<and>
   (\<exists>p. fst (conductVerificationCeremony sample_lib sample_env sample_request sample_store)
           = ceremony_succeeded sample_lib ''U2'' p \<and>
        \<not> isValid (validateVerificationProof sample_lib 7689600000 7689600000 p
                     (public_key sample_node)))"
proof -
  have n: "select_active_node (req_nodeId sample_request) (committed sample_store)
             = Some sample_node"
    using sample_select_node by (simp add: sample_request_def)
  have k: "length (base64_decode sample_lib (public_key sample_node)) = 32"
    by (simp add: sample_node_key)
  have f: "ed25519_getPublicKey sample_lib (base64_decode sample_lib (public_key sample_node))
             \<noteq> base64_decode sample_lib (public_key sample_node)"
    by (simp add: sample_node_key) (simp add: sample_lib_def sample_getPublicKey_def)
  from ceremony_proof_rejected_under_node_key
    [OF sample_ed25519_ok sample_base64_ok n k f sample_env_ok]
  show ?thesis
    using n k f by (auto simp: sample_ed25519_ok sample_base64_ok sample_env_def)
qed

section \<open>Private keys at rest\<close>

lemma ctr_twice:
  "map (\<lambda>(i, b). b XOR ks i) (enumerate n (map (\<lambda>(i, b). b XOR ks i) (enumerate n xs))) = xs"
  for ks :: "nat \<Rightarrow> 8 word"
  by (induction xs arbitrary: n) (simp_all add: xor.assoc)

text \<open>
  C9 does not hold of the code in its second half. \<open>decryptPrivateKey\<close> returns bytes, as
  many as the ciphertext has, for every ciphertext, salt and password: there is no input on
  which it fails.
\<close>

theorem decrypt_never_rejects:
  "\<exists>bs. decryptPrivateKey L enc slt password = Inr bs \<and>
        length bs = length (base64_decode L enc)"
  by (simp add: decryptPrivateKey_def deriveKey_def aes_256_ctr_def Let_def)

text \<open>
  With the password it was encrypted under, decrypting what \<open>encryptPrivateKey\<close> returned
  gives the private key back.
\<close>

theorem key_round_trip:
  assumes "base64_ok L"
  shows "\<exists>ek. encryptPrivateKey L freshSalt freshIv privateKey password = Inr ek \<and>
             decryptPrivateKey L (encrypted ek) (salt ek) password = Inr privateKey"
  using assms
  by (simp add: encryptPrivateKey_def decryptPrivateKey_def deriveKey_def aes_256_ctr_def
      Let_def base64_ok_def ctr_twice)

theorem key_round_trip_witness:
  "base64_ok sample_lib \<and>
   (\<exists>ek. encryptPrivateKey sample_lib [9] [7] [1, 2, 3] ''right'' = Inr ek \<and>
         decryptPrivateKey sample_lib (encrypted ek) (salt ek) ''right'' = Inr [1, 2, 3])"
  using key_round_trip [OF sample_base64_ok, of "[9]" "[7]" "[1, 2, 3]" "''right''"]
  by (simp add: sample_base64_ok)

lemma sample_kdf_selectors:
  "pbkdf2Sync sample_lib =
     (\<lambda>password salt iterations keylen.
        take keylen (map (\<lambda>c. of_nat (of_char c)) password @ salt @ replicate keylen 0))"
  "ctr_keystream sample_lib =
     (\<lambda>password i. (case password of [] \<Rightarrow> 0 | b # _ \<Rightarrow> b) + of_nat i)"
  by (simp_all add: sample_lib_def)

text \<open>
  The key \<open>[1, 2, 3]\<close> encrypted under \<open>right\<close> and decrypted under \<open>wrong\<close>: three other
  bytes, and no error.
\<close>

theorem wrong_password_example:
  "map_sum id (\<lambda>ek. decryptPrivateKey sample_lib (encrypted ek) (salt ek) ''wrong'')
     (encryptPrivateKey sample_lib [9] [7] [1, 2, 3] ''right'')
   = Inr (Inr [4, 9, 14])"
proof -
  have b64: "base64_decode sample_lib (base64_encode sample_lib bs) = bs" for bs
    using sample_base64_ok by (simp add: base64_ok_def)
  show ?thesis
    by (simp add: encryptPrivateKey_def decryptPrivateKey_def deriveKey_def aes_256_ctr_def
        Let_def b64 sample_kdf_selectors enumerate_eq_zip upt_rec)
qed


section \<open>Further properties\<close>

lemma code_unit_difference: "(ucast (x XOR y) :: 32 word) = 0 \<longleftrightarrow> x = y"
  for x y :: "16 word"
proof -
  have up: "(ucast w :: 32 word) = 0 \<longleftrightarrow> w = 0" for w :: "16 word"
    by transfer simp
  have "x XOR y = 0 \<longleftrightarrow> x = y"
    by (metis xor.right_neutral xor_self_eq xor.left_commute)
  with up [of "x XOR y"] show ?thesis by simp
qed

lemma compare_loop_zero:
  "length xs = length ys \<Longrightarrow> compare_loop r xs ys = 0 \<longleftrightarrow> r = 0 \<and> xs = ys"
  by (induction xs ys arbitrary: r rule: list_induct2)
     (auto simp: or_eq_0_iff code_unit_difference)

text \<open>\<open>constantTimeCompare\<close> returns \<open>true\<close> exactly on equal strings.\<close>

theorem constantTimeCompare_eq: "constantTimeCompare a b \<longleftrightarrow> a = b"
  using compare_loop_zero [of a b 0] by (auto simp: constantTimeCompare_def)

text \<open>
  A proof whose \<open>expiresAt\<close> has passed is rejected as expired, whatever its signature and
  whatever key it is checked against.
\<close>

theorem expired_proof_rejected:
  assumes "new_Date L (JStr (expiresAt p)) = Some e" and "e < n1"
  shows "validateVerificationProof L n1 n2 p nodePublicKey
           = \<lparr>isValid = False, reason = Some ''Proof has expired''\<rparr>"
  using assms by (simp add: validateVerificationProof_def expired_iff)

theorem expired_proof_rejected_witness:
  "new_Date sample_lib (JStr (expiresAt sample_proof)) = Some 7776000000 \<and>
   (7776000000::int) < 7776000001 \<and>
   validateVerificationProof sample_lib 7776000001 7776000001 sample_proof []
     = \<lparr>isValid = False, reason = Some ''Proof has expired''\<rparr>"
  using expired_proof_rejected [OF sample_proof_expiry, of 7776000001 7776000001 "[]"]
  by (simp add: sample_proof_expiry)


end
